theory Spec2Isabelle
  imports Main "HOL-Library.Sublist"
begin

section \<open>Errors and observable actions\<close>

text \<open>
  Every error value the two packages build, one constructor per construction site.
  \<open>ExtErr\<close> is an error handed back by a collaborator outside the sources (the command
  runner, the file system, the serializer, the plugin renderer).
\<close>

datatype error =
    ExtErr string
  | Aborted
  | KubectlFailed error string
  | MapFormat string
  | FieldNotSupported string
  | ParseFailed string string error
  | EnvNotSupported string
  | LogOutputsNotSpecified
  | EmptyAWSRegion
  | RegionNotFound string
  | EmptyUserName
  | EmptyImageID
  | EmptyInstanceType
  | UnexpectedClusterSize
  | InstanceProfileMissing string error

text \<open>
  What \<open>createConfigMap\<close> does to the outside, in order: log lines (by their
  message), the apply command (the executable and its two arguments), the \<open>Printf\<close>
  of the command output (by that output), the status string recorded, and the final
  \<open>EKSConfig.Sync\<close>.
\<close>

datatype event =
    LogInfo string
  | LogWarn string
  | KubectlApply string string string
  | Stdout string
  | RecordStatus string
  | EKSConfigSync

section \<open>The ConfigMap artifact (eks/ng/configmap.go)\<close>

subsection \<open>The fragment of text/template and fmt the artifact uses\<close>

text \<open>
  \<open>cut sep s\<close> splits \<open>s\<close> around the first occurrence of \<open>sep\<close>.
\<close>

fun cut :: "string \<Rightarrow> string \<Rightarrow> (string \<times> string) option" where
  "cut sep [] = (if sep = [] then Some ([], []) else None)"
| "cut sep (c # cs) =
     (if prefix sep (c # cs) then Some ([], drop (length sep) (c # cs))
      else map_option (\<lambda>(a, b). (c # a, b)) (cut sep cs))"

datatype node = TextNode string | FieldNode string

text \<open>
  Parsing a template whose only actions are field references \<open>{{.Name}}\<close>: text up to
  the next left delimiter is a text node, the action up to the right delimiter must be a
  dot followed by the field name. \<open>None\<close> is a parse error, on which
  \<open>template.Must\<close> panics. The fuel is the number of delimiters that may follow; the
  length of the text always suffices.
\<close>

fun parse_nodes :: "nat \<Rightarrow> string \<Rightarrow> node list option" where
  "parse_nodes 0 s = (case cut ''{{'' s of None \<Rightarrow> Some [TextNode s] | Some _ \<Rightarrow> None)"
| "parse_nodes (Suc n) s =
     (case cut ''{{'' s of
        None \<Rightarrow> Some [TextNode s]
      | Some (t, rest) \<Rightarrow>
          (case cut ''}}'' rest of
             None \<Rightarrow> None
           | Some (act, rest') \<Rightarrow>
               (case act of
                  [] \<Rightarrow> None
                | d # name \<Rightarrow>
                    if d = CHR ''.'' \<and> name \<noteq> []
                    then map_option (\<lambda>ns. TextNode t # FieldNode name # ns) (parse_nodes n rest')
                    else None)))"

definition template_Parse :: "string \<Rightarrow> node list option" where
  "template_Parse s = parse_nodes (length s) s"

record configMapAuth =
  NGInstanceRoleARN :: string

text \<open>
  Executing the parsed template on a \<open>configMapAuth\<close>: text is copied, a string field is
  printed as it is (text/template escapes nothing), an unknown field is an error.
\<close>

fun template_Execute :: "node list \<Rightarrow> configMapAuth \<Rightarrow> error + string" where
  "template_Execute [] kc = Inr []"
| "template_Execute (TextNode t # ns) kc =
     (case template_Execute ns kc of Inl e \<Rightarrow> Inl e | Inr r \<Rightarrow> Inr (t @ r))"
| "template_Execute (FieldNode f # ns) kc =
     (if f = ''NGInstanceRoleARN''
      then (case template_Execute ns kc of Inl e \<Rightarrow> Inl e | Inr r \<Rightarrow> Inr (NGInstanceRoleARN kc @ r))
      else Inl (ExtErr f))"

text \<open>
  \<open>fmt.Sprintf\<close> with string operands, for the verbs \<open>%%\<close> and \<open>%s\<close>: a percent sign
  followed by a percent sign prints one percent sign; \<open>%s\<close> prints the next operand, or
  \<open>%!s(MISSING)\<close> when none is left; operands left over at the end are reported in an
  \<open>%!(EXTRA ...)\<close> suffix. Any other verb, flag, width or index is outside this
  fragment and gives \<open>None\<close>.
\<close>

fun extra_operands :: "string list \<Rightarrow> string" where
  "extra_operands [] = []"
| "extra_operands [a] = ''string='' @ a"
| "extra_operands (a # b # as) = ''string='' @ a @ '', '' @ extra_operands (b # as)"

fun Sprintf :: "string \<Rightarrow> string list \<Rightarrow> string option" where
  "Sprintf [] args = Some (if args = [] then [] else ''%!(EXTRA '' @ extra_operands args @ '')'')"
| "Sprintf (c # cs) args =
     (if c \<noteq> CHR ''%'' then map_option ((#) c) (Sprintf cs args)
      else (case cs of
              [] \<Rightarrow> None
            | v # cs' \<Rightarrow>
                if v = CHR ''%'' then map_option ((#) CHR ''%'') (Sprintf cs' args)
                else if v = CHR ''s'' then
                  (case args of
                     [] \<Rightarrow> map_option ((@) ''%!s(MISSING)'') (Sprintf cs' [])
                   | a # args' \<Rightarrow> map_option ((@) a) (Sprintf cs' args'))
                else None))"

subsection \<open>writeConfigMapAuth\<close>

definition configMapAuthTempl :: string where
  "configMapAuthTempl =
     ''---\<newline>'' @
     ''apiVersion: v1\<newline>'' @
     ''kind: ConfigMap\<newline>'' @
     ''metadata:\<newline>'' @
     ''  name: aws-auth\<newline>'' @
     ''  namespace: kube-system\<newline>'' @
     ''data:\<newline>'' @
     ''  mapRoles: |\<newline>'' @
     ''    - rolearn: {{.NGInstanceRoleARN}}\<newline>'' @
     ''      %s\<newline>'' @
     ''      groups:\<newline>'' @
     ''      - system:bootstrappers\<newline>'' @
     ''      - system:nodes\<newline>''"

definition username_line :: string where
  "username_line = ''username: system:node:{{EC2PrivateDNSName}}''"

text \<open>
  The value of \<open>txt\<close> in \<open>writeConfigMapAuth\<close>: the template is executed first and its
  output is then the format string of \<open>Sprintf\<close>. \<open>None\<close>: the rendered text holds a
  verb outside the modelled fragment of fmt. \<open>Some (Inl e)\<close>: parsing panicked or
  executing failed.
\<close>

definition configMapAuth_txt :: "string \<Rightarrow> (error + string) option" where
  "configMapAuth_txt arn =
     (let kc = \<lparr>NGInstanceRoleARN = arn\<rparr> in
      case template_Parse configMapAuthTempl of
        None \<Rightarrow> Some (Inl (ExtErr ''template: parse''))
      | Some tpl \<Rightarrow>
          (case template_Execute tpl kc of
             Inl e \<Rightarrow> Some (Inl e)
           | Inr buf \<Rightarrow> map_option Inr (Sprintf buf [username_line])))"

text \<open>
  \<open>fileutil.WriteTempFile\<close> is not part of the sources: it is a parameter, taking the
  bytes and returning the Go pair (path, error).
\<close>

definition writeConfigMapAuth ::
  "(string \<Rightarrow> string \<times> error option) \<Rightarrow> string \<Rightarrow> (string \<times> error option) option" where
  "writeConfigMapAuth WriteTempFile arn =
     (case configMapAuth_txt arn of
        None \<Rightarrow> None
      | Some (Inl e) \<Rightarrow> Some ('''', Some e)
      | Some (Inr txt) \<Rightarrow> Some (WriteTempFile txt))"

subsection \<open>createConfigMap\<close>

text \<open>
  One pass through the loop body as the outside decides it: which case of the
  \<open>select\<close> fires, how late the five-second timer fires, and what the apply command
  returns and how long it runs. A command cut off by its 15-second context is a command
  that returned an error. Durations are nanoseconds.
\<close>

datatype select_case = StopC | SigC | After5s

record cycle =
  selected :: select_case
  timer_lag :: nat
  cmd_err :: "error option"
  cmd_output :: string
  cmd_took :: nat

record kube_world =
  WriteTempFile :: "string \<Rightarrow> string \<times> error option"
  cycles :: "nat \<Rightarrow> cycle"
  EKSConfig_Sync :: "error option"

record tester =
  KubectlPath :: string
  KubeConfigPath :: string
  RoleARN :: string

definition second :: nat where
  "second = 1000000000"

definition waitDur :: nat where
  "waitDur = 5 * 60 * second"

text \<open>
  The \<open>for\<close> loop of \<open>createConfigMap\<close> from its \<open>i\<close>-th pass on, \<open>elapsed\<close>
  nanoseconds after \<open>retryStart\<close>. It returns the actions performed and the error
  returned. The branch for a failed command returns; the code after it runs when the
  command has succeeded, so \<open>err\<close> is nil in the warning and in the recorded status.
\<close>

function retry_loop :: "kube_world \<Rightarrow> tester \<Rightarrow> string \<Rightarrow> nat \<Rightarrow> nat \<Rightarrow> event list \<times> error option" where
  "retry_loop W ts p i elapsed =
     (if elapsed < waitDur then
        (case selected (cycles W i) of
           StopC \<Rightarrow> ([], Some Aborted)
         | SigC \<Rightarrow> ([], Some Aborted)
         | After5s \<Rightarrow>
             (let c = cycles W i;
                  apply = KubectlApply (KubectlPath ts) (''--kubeconfig='' @ KubeConfigPath ts)
                            (''--filename='' @ p)
              in case cmd_err c of
                   Some e \<Rightarrow> ([apply], Some (KubectlFailed e (cmd_output c)))
                 | None \<Rightarrow>
                     (case retry_loop W ts p (Suc i)
                             (elapsed + 5 * second + timer_lag c + cmd_took c) of
                        (evs, r) \<Rightarrow>
                          (apply # Stdout (cmd_output c)
                             # LogWarn ''create ConfigMap failed''
                             # RecordStatus ''create ConfigMap failed (<nil>)'' # evs, r))))
      else ([LogInfo ''created ConfigMap'', EKSConfigSync], EKSConfig_Sync W))"
  by pat_completeness auto
termination
  by (relation "measure (\<lambda>(W, ts, p, i, elapsed). waitDur - elapsed)")
     (auto simp: second_def)

definition createConfigMap :: "kube_world \<Rightarrow> tester \<Rightarrow> (event list \<times> error option) option" where
  "createConfigMap W ts =
     (case writeConfigMapAuth (WriteTempFile W) (RoleARN ts) of
        None \<Rightarrow> None
      | Some (p, Some e) \<Rightarrow> Some ([LogInfo ''writing ConfigMap''], Some e)
      | Some (p, None) \<Rightarrow>
          (case retry_loop W ts p 0 0 of
             (evs, r) \<Rightarrow> Some (LogInfo ''writing ConfigMap'' # evs, r)))"

section \<open>The EC2 configuration (package ec2config)\<close>

subsection \<open>Data\<close>

text \<open>
  \<open>time.Time\<close> as its calendar fields (UTC wall clock); \<open>time.Duration\<close> and the Go
  integers of the configuration as \<open>int\<close>: the package does no arithmetic on them, and
  what it parses into them is range-checked to 64 bits.
\<close>

record Time =
  Year :: int
  Month :: int
  Day :: int
  Hour :: int
  Minute :: int
  Sec :: int
  Nsec :: int

definition zero_Time :: Time where
  "zero_Time = \<lparr>Year = 1, Month = 1, Day = 1, Hour = 0, Minute = 0, Sec = 0, Nsec = 0\<rparr>"

record Placement =
  AvailabilityZone :: string
  Tenancy :: string

record State =
  Code :: int
  Name :: string

record EBS =
  DeleteOnTermination :: bool
  Status :: string
  VolumeID :: string

record BlockDeviceMapping =
  DeviceName :: string
  EBS :: EBS

record SecurityGroup =
  GroupName :: string
  GroupID :: string

text \<open>
  The fields of \<open>Instance\<close> that share a name with a field of \<open>Config\<close> carry the
  suffix \<open>_I\<close>.
\<close>

record Instance =
  ImageID_I :: string
  InstanceID :: string
  InstanceType_I :: string
  KeyName_I :: string
  Placement :: Placement
  PrivateDNSName :: string
  PrivateIP :: string
  PublicDNSName :: string
  PublicIP :: string
  State :: State
  SubnetID :: string
  VPCID_I :: string
  BlockDeviceMappings :: "BlockDeviceMapping list"
  EBSOptimized :: bool
  RootDeviceName :: string
  RootDeviceType :: string
  SecurityGroups :: "SecurityGroup list"
  LaunchTime :: Time

text \<open>
  \<open>Config\<close>, field by field in declaration order. A slice is a list (nil is the empty
  list: the package only takes lengths and appends), a \<open>map[string]string\<close> is a map
  (nil is the empty map), and \<open>Instances\<close> keeps nil apart as \<open>None\<close>, since
  \<open>Load\<close> tests it.
\<close>

record Config =
  EnvPrefix :: string
  AWSAccountID :: string
  AWSRegion :: string
  LogLevel :: string
  LogOutputs :: "string list"
  LogOutputToUploadPath :: string
  LogOutputToUploadPathBucket :: string
  LogOutputToUploadPathURL :: string
  UploadTesterLogs :: bool
  UploadBucketExpireDays :: int
  Tag :: string
  Tags :: "string \<rightharpoonup> string"
  ClusterName :: string
  DestroyAfterCreate :: bool
  DestroyWaitTime :: int
  ConfigPath :: string
  ConfigPathBucket :: string
  ConfigPathURL :: string
  UpdatedAt :: Time
  ImageID :: string
  UserName :: string
  Plugins :: "string list"
  InitScript :: string
  InitScriptCreated :: bool
  InstanceType :: string
  ClusterSize :: int
  KeyName :: string
  KeyPath :: string
  KeyPathBucket :: string
  KeyPathURL :: string
  KeyCreateSkip :: bool
  KeyCreated :: bool
  VPCCIDR :: string
  VPCID :: string
  VPCCreated :: bool
  InternetGatewayID :: string
  RouteTableIDs :: "string list"
  SubnetIDs :: "string list"
  SubnetIDToAvailabilityZone :: "string \<rightharpoonup> string"
  IngressRulesTCP :: "string \<rightharpoonup> string"
  SecurityGroupIDs :: "string list"
  AssociatePublicIPAddress :: bool
  VolumeSize :: int
  Instances :: "(string \<rightharpoonup> Instance) option"
  Wait :: bool
  InstanceProfileFilePath :: string
  InstanceProfileName :: string
  InstanceProfileCreated :: bool
  InstanceProfilePolicyName :: string
  InstanceProfilePolicyARN :: string
  InstanceProfilePolicy :: string
  InstanceProfilePolicyCreated :: bool
  InstanceProfileRoleName :: string
  InstanceProfileRoleCreated :: bool
  CustomScript :: string

subsection \<open>What the package takes from outside\<close>

text \<open>
  \<open>lib\<close>: pure functions and tables of other packages (\<open>pkg/aws\<close>,
  \<open>ec2config/plugins\<close>, the Go standard library), fixed for a run.
  \<open>world\<close>: what the operating system answers when asked (environment variables, the
  clock, the random source, the temporary directory, the file system). A Go function
  returning (value, error) is a function returning that pair.
\<close>

record lib =
  RegionToAiport :: "string \<rightharpoonup> string"
  plugins_Create :: "string \<Rightarrow> string \<Rightarrow> string list \<Rightarrow> string \<times> error option"
  strings_ToLower :: "string \<Rightarrow> string"
  filepath_Join :: "string list \<Rightarrow> string"
  filepath_IsAbs :: "string \<Rightarrow> bool"
  time_ParseDuration :: "string \<Rightarrow> error + int"

record world =
  os_Getenv :: "string \<Rightarrow> string"
  time_Now :: Time
  rand_source :: "nat \<Rightarrow> nat"
  os_TempDir :: string
  ioutil_TempFile :: "string \<Rightarrow> string \<Rightarrow> string \<times> error option"
  filepath_Abs :: "string \<Rightarrow> string \<times> error option"
  os_Stat :: "string \<Rightarrow> error option"

subsection \<open>NewDefault\<close>

definition zero_Config :: Config where
  "zero_Config =
     \<lparr>EnvPrefix = '''',
      AWSAccountID = '''',
      AWSRegion = '''',
      LogLevel = '''',
      LogOutputs = [],
      LogOutputToUploadPath = '''',
      LogOutputToUploadPathBucket = '''',
      LogOutputToUploadPathURL = '''',
      UploadTesterLogs = False,
      UploadBucketExpireDays = 0,
      Tag = '''',
      Tags = Map.empty,
      ClusterName = '''',
      DestroyAfterCreate = False,
      DestroyWaitTime = 0,
      ConfigPath = '''',
      ConfigPathBucket = '''',
      ConfigPathURL = '''',
      UpdatedAt = zero_Time,
      ImageID = '''',
      UserName = '''',
      Plugins = [],
      InitScript = '''',
      InitScriptCreated = False,
      InstanceType = '''',
      ClusterSize = 0,
      KeyName = '''',
      KeyPath = '''',
      KeyPathBucket = '''',
      KeyPathURL = '''',
      KeyCreateSkip = False,
      KeyCreated = False,
      VPCCIDR = '''',
      VPCID = '''',
      VPCCreated = False,
      InternetGatewayID = '''',
      RouteTableIDs = [],
      SubnetIDs = [],
      SubnetIDToAvailabilityZone = Map.empty,
      IngressRulesTCP = Map.empty,
      SecurityGroupIDs = [],
      AssociatePublicIPAddress = False,
      VolumeSize = 0,
      Instances = None,
      Wait = False,
      InstanceProfileFilePath = '''',
      InstanceProfileName = '''',
      InstanceProfileCreated = False,
      InstanceProfilePolicyName = '''',
      InstanceProfilePolicyARN = '''',
      InstanceProfilePolicy = '''',
      InstanceProfilePolicyCreated = False,
      InstanceProfileRoleName = '''',
      InstanceProfileRoleCreated = False,
      CustomScript = ''''\<rparr>"

definition envPfx :: string where
  "envPfx = ''AWS_K8S_TESTER_EC2_''"

text \<open>
  \<open>defaultConfig\<close>; \<open>logutil.DefaultLogLevel\<close> is declared outside the sources and is
  the parameter. Fields the literal omits keep their zero value.
\<close>

definition defaultConfig :: "string \<Rightarrow> Config" where
  "defaultConfig DefaultLogLevel =
     zero_Config
       \<lparr>EnvPrefix := envPfx,
        AWSRegion := ''us-west-2'',
        DestroyAfterCreate := False,
        DestroyWaitTime := 60 * 1000000000,
        LogLevel := DefaultLogLevel,
        LogOutputs := [''stderr''],
        UploadTesterLogs := False,
        UploadBucketExpireDays := 2,
        ImageID := ''ami-082b5a644766e0e6f'',
        UserName := ''ec2-user'',
        Plugins := [''update-amazon-linux-2'', ''install-start-docker-amazon-linux-2''],
        InstanceType := ''m5.large'',
        ClusterSize := 1,
        AssociatePublicIPAddress := True,
        KeyCreateSkip := False,
        KeyCreated := False,
        VPCCIDR := ''192.168.0.0/16'',
        IngressRulesTCP := [''22'' \<mapsto> ''0.0.0.0/0''],
        VolumeSize := 40,
        Wait := True\<rparr>"

definition NewDefault :: "string \<Rightarrow> Config" where
  "NewDefault DefaultLogLevel = defaultConfig DefaultLogLevel"

subsection \<open>UpdateFromEnvs\<close>

text \<open>
  What reflection sees of a field: its name, its \<open>json\<close> tag, and its kind together
  with the typed setter the kind allows. \<open>Map_slot\<close> has a setter when the field is a
  \<open>map[string]string\<close>; \<open>Int_slot\<close> stands for the kinds Int, Int32 and Int64,
  which share one case of the switch; \<open>Struct_slot\<close> is a kind outside every case.
  No field of \<open>Config\<close> has an unsigned or a floating-point kind, so those two cases
  of the switch are never taken.
\<close>

datatype slot =
    String_slot "string \<Rightarrow> Config \<Rightarrow> Config"
  | Bool_slot "bool \<Rightarrow> Config \<Rightarrow> Config"
  | Int_slot "int \<Rightarrow> Config \<Rightarrow> Config"
  | Map_slot "((string \<rightharpoonup> string) \<Rightarrow> Config \<Rightarrow> Config) option"
  | Slice_slot "string list \<Rightarrow> Config \<Rightarrow> Config"
  | Struct_slot string

record field =
  fieldName :: string
  json :: string
  slot :: slot

definition Config_fields :: "field list" where
  "Config_fields =
     [\<lparr>fieldName = ''EnvPrefix'', json = ''env-prefix'',
       slot = String_slot (\<lambda>v. EnvPrefix_update (\<lambda>_. v))\<rparr>,
      \<lparr>fieldName = ''AWSAccountID'', json = ''aws-account-id'',
       slot = String_slot (\<lambda>v. AWSAccountID_update (\<lambda>_. v))\<rparr>,
      \<lparr>fieldName = ''AWSRegion'', json = ''aws-region'',
       slot = String_slot (\<lambda>v. AWSRegion_update (\<lambda>_. v))\<rparr>,
      \<lparr>fieldName = ''LogLevel'', json = ''log-level'',
       slot = String_slot (\<lambda>v. LogLevel_update (\<lambda>_. v))\<rparr>,
      \<lparr>fieldName = ''LogOutputs'', json = ''log-outputs'',
       slot = Slice_slot (\<lambda>v. LogOutputs_update (\<lambda>_. v))\<rparr>,
      \<lparr>fieldName = ''LogOutputToUploadPath'', json = ''log-output-to-upload-path'',
       slot = String_slot (\<lambda>v. LogOutputToUploadPath_update (\<lambda>_. v))\<rparr>,
      \<lparr>fieldName = ''LogOutputToUploadPathBucket'', json = ''log-output-to-upload-path-bucket'',
       slot = String_slot (\<lambda>v. LogOutputToUploadPathBucket_update (\<lambda>_. v))\<rparr>,
      \<lparr>fieldName = ''LogOutputToUploadPathURL'', json = ''log-output-to-upload-path-url'',
       slot = String_slot (\<lambda>v. LogOutputToUploadPathURL_update (\<lambda>_. v))\<rparr>,
      \<lparr>fieldName = ''UploadTesterLogs'', json = ''upload-tester-logs'',
       slot = Bool_slot (\<lambda>v. UploadTesterLogs_update (\<lambda>_. v))\<rparr>,
      \<lparr>fieldName = ''UploadBucketExpireDays'', json = ''upload-bucket-expire-days'',
       slot = Int_slot (\<lambda>v. UploadBucketExpireDays_update (\<lambda>_. v))\<rparr>,
      \<lparr>fieldName = ''Tag'', json = ''tag'',
       slot = String_slot (\<lambda>v. Tag_update (\<lambda>_. v))\<rparr>,
      \<lparr>fieldName = ''Tags'', json = ''tags'',
       slot = Map_slot (Some (\<lambda>v. Tags_update (\<lambda>_. v)))\<rparr>,
      \<lparr>fieldName = ''ClusterName'', json = ''cluster-name'',
       slot = String_slot (\<lambda>v. ClusterName_update (\<lambda>_. v))\<rparr>,
      \<lparr>fieldName = ''DestroyAfterCreate'', json = ''destroy-after-create'',
       slot = Bool_slot (\<lambda>v. DestroyAfterCreate_update (\<lambda>_. v))\<rparr>,
      \<lparr>fieldName = ''DestroyWaitTime'', json = ''destroy-wait-time,omitempty'',
       slot = Int_slot (\<lambda>v. DestroyWaitTime_update (\<lambda>_. v))\<rparr>,
      \<lparr>fieldName = ''ConfigPath'', json = ''config-path'',
       slot = String_slot (\<lambda>v. ConfigPath_update (\<lambda>_. v))\<rparr>,
      \<lparr>fieldName = ''ConfigPathBucket'', json = ''config-path-bucket'',
       slot = String_slot (\<lambda>v. ConfigPathBucket_update (\<lambda>_. v))\<rparr>,
      \<lparr>fieldName = ''ConfigPathURL'', json = ''config-path-url'',
       slot = String_slot (\<lambda>v. ConfigPathURL_update (\<lambda>_. v))\<rparr>,
      \<lparr>fieldName = ''UpdatedAt'', json = ''updated-at'',
       slot = Struct_slot ''time.Time''\<rparr>,
      \<lparr>fieldName = ''ImageID'', json = ''image-id'',
       slot = String_slot (\<lambda>v. ImageID_update (\<lambda>_. v))\<rparr>,
      \<lparr>fieldName = ''UserName'', json = ''user-name'',
       slot = String_slot (\<lambda>v. UserName_update (\<lambda>_. v))\<rparr>,
      \<lparr>fieldName = ''Plugins'', json = ''plugins'',
       slot = Slice_slot (\<lambda>v. Plugins_update (\<lambda>_. v))\<rparr>,
      \<lparr>fieldName = ''InitScript'', json = ''init-script'',
       slot = String_slot (\<lambda>v. InitScript_update (\<lambda>_. v))\<rparr>,
      \<lparr>fieldName = ''InitScriptCreated'', json = ''init-script-created'',
       slot = Bool_slot (\<lambda>v. InitScriptCreated_update (\<lambda>_. v))\<rparr>,
      \<lparr>fieldName = ''InstanceType'', json = ''instance-type'',
       slot = String_slot (\<lambda>v. InstanceType_update (\<lambda>_. v))\<rparr>,
      \<lparr>fieldName = ''ClusterSize'', json = ''cluster-size'',
       slot = Int_slot (\<lambda>v. ClusterSize_update (\<lambda>_. v))\<rparr>,
      \<lparr>fieldName = ''KeyName'', json = ''key-name'',
       slot = String_slot (\<lambda>v. KeyName_update (\<lambda>_. v))\<rparr>,
      \<lparr>fieldName = ''KeyPath'', json = ''key-path'',
       slot = String_slot (\<lambda>v. KeyPath_update (\<lambda>_. v))\<rparr>,
      \<lparr>fieldName = ''KeyPathBucket'', json = ''key-path-bucket'',
       slot = String_slot (\<lambda>v. KeyPathBucket_update (\<lambda>_. v))\<rparr>,
      \<lparr>fieldName = ''KeyPathURL'', json = ''key-path-url'',
       slot = String_slot (\<lambda>v. KeyPathURL_update (\<lambda>_. v))\<rparr>,
      \<lparr>fieldName = ''KeyCreateSkip'', json = ''key-create-skip'',
       slot = Bool_slot (\<lambda>v. KeyCreateSkip_update (\<lambda>_. v))\<rparr>,
      \<lparr>fieldName = ''KeyCreated'', json = ''key-created'',
       slot = Bool_slot (\<lambda>v. KeyCreated_update (\<lambda>_. v))\<rparr>,
      \<lparr>fieldName = ''VPCCIDR'', json = ''vpc-cidr'',
       slot = String_slot (\<lambda>v. VPCCIDR_update (\<lambda>_. v))\<rparr>,
      \<lparr>fieldName = ''VPCID'', json = ''vpc-id'',
       slot = String_slot (\<lambda>v. VPCID_update (\<lambda>_. v))\<rparr>,
      \<lparr>fieldName = ''VPCCreated'', json = ''vpc-created'',
       slot = Bool_slot (\<lambda>v. VPCCreated_update (\<lambda>_. v))\<rparr>,
      \<lparr>fieldName = ''InternetGatewayID'', json = ''internet-gateway-id'',
       slot = String_slot (\<lambda>v. InternetGatewayID_update (\<lambda>_. v))\<rparr>,
      \<lparr>fieldName = ''RouteTableIDs'', json = ''route-table-ids'',
       slot = Slice_slot (\<lambda>v. RouteTableIDs_update (\<lambda>_. v))\<rparr>,
      \<lparr>fieldName = ''SubnetIDs'', json = ''subnet-ids'',
       slot = Slice_slot (\<lambda>v. SubnetIDs_update (\<lambda>_. v))\<rparr>,
      \<lparr>fieldName = ''SubnetIDToAvailabilityZone'', json = ''subnet-id-to-availability-zone'',
       slot = Map_slot (Some (\<lambda>v. SubnetIDToAvailabilityZone_update (\<lambda>_. v)))\<rparr>,
      \<lparr>fieldName = ''IngressRulesTCP'', json = ''ingress-rules-tcp'',
       slot = Map_slot (Some (\<lambda>v. IngressRulesTCP_update (\<lambda>_. v)))\<rparr>,
      \<lparr>fieldName = ''SecurityGroupIDs'', json = ''security-group-ids'',
       slot = Slice_slot (\<lambda>v. SecurityGroupIDs_update (\<lambda>_. v))\<rparr>,
      \<lparr>fieldName = ''AssociatePublicIPAddress'', json = ''associate-public-ip-address'',
       slot = Bool_slot (\<lambda>v. AssociatePublicIPAddress_update (\<lambda>_. v))\<rparr>,
      \<lparr>fieldName = ''VolumeSize'', json = ''volume-size'',
       slot = Int_slot (\<lambda>v. VolumeSize_update (\<lambda>_. v))\<rparr>,
      \<lparr>fieldName = ''Instances'', json = ''instances'',
       slot = Map_slot None\<rparr>,
      \<lparr>fieldName = ''Wait'', json = ''wait'',
       slot = Bool_slot (\<lambda>v. Wait_update (\<lambda>_. v))\<rparr>,
      \<lparr>fieldName = ''InstanceProfileFilePath'', json = ''instance-profile-file-path'',
       slot = String_slot (\<lambda>v. InstanceProfileFilePath_update (\<lambda>_. v))\<rparr>,
      \<lparr>fieldName = ''InstanceProfileName'', json = ''instance-profile-name'',
       slot = String_slot (\<lambda>v. InstanceProfileName_update (\<lambda>_. v))\<rparr>,
      \<lparr>fieldName = ''InstanceProfileCreated'', json = ''instance-profile-created'',
       slot = Bool_slot (\<lambda>v. InstanceProfileCreated_update (\<lambda>_. v))\<rparr>,
      \<lparr>fieldName = ''InstanceProfilePolicyName'', json = ''instance-profile-policy-name'',
       slot = String_slot (\<lambda>v. InstanceProfilePolicyName_update (\<lambda>_. v))\<rparr>,
      \<lparr>fieldName = ''InstanceProfilePolicyARN'', json = ''instance-profile-policy-arn'',
       slot = String_slot (\<lambda>v. InstanceProfilePolicyARN_update (\<lambda>_. v))\<rparr>,
      \<lparr>fieldName = ''InstanceProfilePolicy'', json = ''instance-profile-policy'',
       slot = String_slot (\<lambda>v. InstanceProfilePolicy_update (\<lambda>_. v))\<rparr>,
      \<lparr>fieldName = ''InstanceProfilePolicyCreated'', json = ''instance-profile-policy-created'',
       slot = Bool_slot (\<lambda>v. InstanceProfilePolicyCreated_update (\<lambda>_. v))\<rparr>,
      \<lparr>fieldName = ''InstanceProfileRoleName'', json = ''instance-profile-role-name'',
       slot = String_slot (\<lambda>v. InstanceProfileRoleName_update (\<lambda>_. v))\<rparr>,
      \<lparr>fieldName = ''InstanceProfileRoleCreated'', json = ''instance-profile-role-created'',
       slot = Bool_slot (\<lambda>v. InstanceProfileRoleCreated_update (\<lambda>_. v))\<rparr>,
      \<lparr>fieldName = ''CustomScript'', json = ''custom-script'',
       slot = String_slot (\<lambda>v. CustomScript_update (\<lambda>_. v))\<rparr>]"

text \<open>\<open>strings.Split\<close> on a one-byte separator.\<close>

fun Split :: "string \<Rightarrow> char \<Rightarrow> string list" where
  "Split [] sep = [[]]"
| "Split (c # cs) sep =
     (if c = sep then [] # Split cs sep
      else (case Split cs sep of [] \<Rightarrow> [[c]] | w # ws \<Rightarrow> (c # w) # ws))"

text \<open>\<open>strings.Replace\<close> with \<open>n = -1\<close> for a non-empty \<open>old\<close>.\<close>

function Replace :: "string \<Rightarrow> string \<Rightarrow> string \<Rightarrow> string" where
  "Replace [] old new = []"
| "Replace (c # cs) old new =
     (if old \<noteq> [] \<and> prefix old (c # cs)
      then new @ Replace (drop (length old) (c # cs)) old new
      else c # Replace cs old new)"
  by pat_completeness auto
termination
  by (relation "measure (\<lambda>(s, old, new). length s)") auto

text \<open>\<open>strings.ToUpper\<close> on the tags, which are ASCII.\<close>

definition upper_byte :: "char \<Rightarrow> char" where
  "upper_byte c =
     (case map_of (zip ''abcdefghijklmnopqrstuvwxyz'' ''ABCDEFGHIJKLMNOPQRSTUVWXYZ'') c of
        None \<Rightarrow> c
      | Some u \<Rightarrow> u)"

definition ToUpper :: "string \<Rightarrow> string" where
  "ToUpper s = map upper_byte s"

definition is_digit :: "char \<Rightarrow> bool" where
  "is_digit c = (let n = (of_char c :: nat) in 48 \<le> n \<and> n \<le> 57)"

definition digit_val :: "char \<Rightarrow> int" where
  "digit_val c = int (of_char c) - 48"

definition digits_val :: "string \<Rightarrow> int" where
  "digits_val ds = foldl (\<lambda>acc c. 10 * acc + digit_val c) 0 ds"

text \<open>
  \<open>strconv.ParseBool\<close> and \<open>strconv.ParseInt(s, 10, 64)\<close> of the standard library:
  the twelve boolean literals; an optional sign and decimal digits, within 64 bits.
\<close>

definition ParseBool :: "string \<Rightarrow> error + bool" where
  "ParseBool s =
     (if s \<in> set [''1'', ''t'', ''T'', ''TRUE'', ''true'', ''True''] then Inr True
      else if s \<in> set [''0'', ''f'', ''F'', ''FALSE'', ''false'', ''False''] then Inr False
      else Inl (ExtErr ''invalid syntax''))"

definition ParseInt :: "string \<Rightarrow> error + int" where
  "ParseInt s =
     (case s of
        [] \<Rightarrow> Inl (ExtErr ''invalid syntax'')
      | c # r \<Rightarrow>
          (let neg = (c = CHR ''-'');
               ds = (if c = CHR ''+'' \<or> c = CHR ''-'' then r else s)
           in if ds = [] \<or> \<not> list_all is_digit ds then Inl (ExtErr ''invalid syntax'')
              else (let un = digits_val ds
                    in if \<not> neg \<and> un \<ge> 2 ^ 63 then Inl (ExtErr ''value out of range'')
                       else if neg \<and> un > 2 ^ 63 then Inl (ExtErr ''value out of range'')
                       else Inr (if neg then - un else un))))"

text \<open>
  The inner loop of the map case: each pair must split into exactly two fields at
  \<open>=\<close>; the map built so far is returned with the error.
\<close>

fun set_pairs :: "string \<Rightarrow> string list \<Rightarrow> (string \<rightharpoonup> string) \<Rightarrow> (string \<rightharpoonup> string) \<times> error option" where
  "set_pairs sv [] m = (m, None)"
| "set_pairs sv (pair # pairs) m =
     (case Split pair CHR ''='' of
        [k, v] \<Rightarrow> set_pairs sv pairs (m(k \<mapsto> v))
      | _ \<Rightarrow> (m, Some (MapFormat sv)))"

definition env_key :: "string \<Rightarrow> string \<Rightarrow> string" where
  "env_key pfx tag =
     pfx @ ToUpper (Replace (Replace (Replace tag '',omitempty'' '''') ''-'' ''_'') ''-'' ''_'')"

text \<open>
  The loop over the fields, on the working copy \<open>cc\<close>. It returns the working copy as
  it stands when the loop ends or returns, and the error. The prefix is read from the
  receiver, not from the working copy.
\<close>

fun update_fields ::
  "lib \<Rightarrow> world \<Rightarrow> string \<Rightarrow> field list \<Rightarrow> Config \<Rightarrow> Config \<times> error option" where
  "update_fields L W pfx [] cc = (cc, None)"
| "update_fields L W pfx (f # fs) cc =
     (if json f = '''' then update_fields L W pfx fs cc
      else
        (let env = env_key pfx (json f) in
         if os_Getenv W env = '''' then update_fields L W pfx fs cc
         else
           (let sv = os_Getenv W env in
            case slot f of
              String_slot assign \<Rightarrow> update_fields L W pfx fs (assign sv cc)
            | Map_slot setter \<Rightarrow>
                (if fieldName f = ''Tags'' \<or> fieldName f = ''IngressRulesTCP'' then
                   (case setter of
                      None \<Rightarrow> (cc, Some (FieldNotSupported (fieldName f)))
                    | Some assign \<Rightarrow>
                        (case set_pairs sv (Split sv CHR '','') Map.empty of
                           (m, Some e) \<Rightarrow> (assign m cc, Some e)
                         | (m, None) \<Rightarrow> update_fields L W pfx fs (assign m cc)))
                 else (cc, Some (FieldNotSupported (fieldName f))))
            | Bool_slot assign \<Rightarrow>
                (case ParseBool sv of
                   Inl err \<Rightarrow> (cc, Some (ParseFailed sv env err))
                 | Inr bb \<Rightarrow> update_fields L W pfx fs (assign bb cc))
            | Int_slot assign \<Rightarrow>
                (if fieldName f = ''DestroyWaitTime'' then
                   (case time_ParseDuration L sv of
                      Inl err \<Rightarrow> (cc, Some (ParseFailed sv env err))
                    | Inr dv \<Rightarrow> update_fields L W pfx fs (assign dv cc))
                 else
                   (case ParseInt sv of
                      Inl err \<Rightarrow> (cc, Some (ParseFailed sv env err))
                    | Inr iv \<Rightarrow> update_fields L W pfx fs (assign iv cc)))
            | Slice_slot assign \<Rightarrow>
                (if fieldName f = ''Plugins'' \<or> fieldName f = ''SubnetIDs''
                    \<or> fieldName f = ''SecurityGroupIDs''
                 then update_fields L W pfx fs (assign (Split sv CHR '','') cc)
                 else (cc, Some (FieldNotSupported (fieldName f))))
            | Struct_slot ty \<Rightarrow> (cc, Some (EnvNotSupported env)))))"

text \<open>
  \<open>UpdateFromEnvs\<close> copies the receiver into \<open>cc\<close>, runs the loop on the copy, and
  assigns the copy back only on the path that returns nil. The result is the receiver
  after the call and the error. (The copy shares the receiver's maps and slices, but the
  loop replaces a map or slice by a fresh one before writing to it.)
\<close>

definition UpdateFromEnvs :: "lib \<Rightarrow> world \<Rightarrow> Config \<Rightarrow> Config \<times> error option" where
  "UpdateFromEnvs L W cfg =
     (case update_fields L W (EnvPrefix cfg) Config_fields cfg of
        (cc, Some e) \<Rightarrow> (cfg, Some e)
      | (cc, None) \<Rightarrow> (cc, None))"

subsection \<open>genTag and randString\<close>

definition digit_char :: "nat \<Rightarrow> char" where
  "digit_char d = ''0123456789'' ! d"

function dec :: "nat \<Rightarrow> string" where
  "dec n = (if n < 10 then [digit_char n] else dec (n div 10) @ [digit_char (n mod 10)])"
  by pat_completeness auto
termination
  by (relation "measure id") auto

declare dec.simps [simp del]

text \<open>The verbs \<open>%d\<close> and \<open>%02d\<close> of fmt; the width of \<open>%02d\<close> counts the sign.\<close>

definition fmt_d :: "int \<Rightarrow> string" where
  "fmt_d i = (if i < 0 then ''-'' @ dec (nat (- i)) else dec (nat i))"

definition fmt_02d :: "int \<Rightarrow> string" where
  "fmt_02d i =
     (if i < 0 then ''-'' @ replicate (1 - length (dec (nat (- i)))) CHR ''0'' @ dec (nat (- i))
      else replicate (2 - length (dec (nat i))) CHR ''0'' @ dec (nat i))"

definition genTag :: "Time \<Rightarrow> string" where
  "genTag now =
     ''ec2-'' @ fmt_d (Year now - 2000) @ fmt_02d (Month now) @ fmt_02d (Day now)
       @ fmt_02d (Hour now)"

definition ll :: string where
  "ll = ''0123456789abcdefghijklmnopqrstuvwxyz''"

text \<open>
  \<open>rand.Intn n\<close> is a draw in \<open>[0, n)\<close>: the \<open>i\<close>-th number of the random source,
  reduced below \<open>n\<close>.
\<close>

definition Intn :: "world \<Rightarrow> nat \<Rightarrow> nat \<Rightarrow> nat" where
  "Intn W i n = rand_source W i mod n"

definition randString :: "world \<Rightarrow> nat \<Rightarrow> string" where
  "randString W n = map (\<lambda>i. ll ! Intn W i (length ll)) [0..<n]"

subsection \<open>ValidateAndSetDefaults\<close>

text \<open>
  The function is a sequence of blocks on the receiver, each of which may return an
  error. A block is a function from the configuration to the configuration after the
  block and the error it returned, if any; \<open>then_do\<close> runs the next block unless the
  function has returned.
\<close>

definition then_do ::
  "Config \<times> error option \<Rightarrow> (Config \<Rightarrow> Config \<times> error option) \<Rightarrow> Config \<times> error option" where
  "then_do r blk = (case r of (cfg, None) \<Rightarrow> blk cfg | (cfg, Some e) \<Rightarrow> (cfg, Some e))"

definition check_inputs :: "lib \<Rightarrow> Config \<Rightarrow> Config \<times> error option" where
  "check_inputs L cfg =
     (if length (LogOutputs cfg) = 0 then (cfg, Some LogOutputsNotSpecified)
      else if AWSRegion cfg = '''' then (cfg, Some EmptyAWSRegion)
      else if RegionToAiport L (AWSRegion cfg) = None
        then (cfg, Some (RegionNotFound (AWSRegion cfg)))
      else if UserName cfg = '''' then (cfg, Some EmptyUserName)
      else if ImageID cfg = '''' then (cfg, Some EmptyImageID)
      else (cfg, None))"

text \<open>
  The result string of \<open>plugins.Create\<close> is assigned to \<open>InitScript\<close> before its
  error is looked at.
\<close>

definition build_InitScript :: "lib \<Rightarrow> Config \<Rightarrow> Config \<times> error option" where
  "build_InitScript L cfg =
     (if length (Plugins cfg) > 0 \<and> \<not> InitScriptCreated cfg then
        (let txt = InitScript cfg;
             created = plugins_Create L (UserName cfg) (CustomScript cfg) (Plugins cfg);
             cfg1 = cfg\<lparr>InitScript := fst created\<rparr>
         in case snd created of
              Some err \<Rightarrow> (cfg1, Some err)
            | None \<Rightarrow>
                (cfg1\<lparr>InitScript := InitScript cfg1 @ ''\<newline>'' @ txt,
                      InitScriptCreated := True\<rparr>, None))
      else (cfg, None))"

definition check_instances :: "Config \<Rightarrow> Config \<times> error option" where
  "check_instances cfg =
     (if InstanceType cfg = '''' then (cfg, Some EmptyInstanceType)
      else if ClusterSize cfg < 1 then (cfg, Some UnexpectedClusterSize)
      else (cfg, None))"

definition derive_Tag :: "world \<Rightarrow> Config \<Rightarrow> Config \<times> error option" where
  "derive_Tag W cfg =
     (if Tag cfg = '''' then (cfg\<lparr>Tag := genTag (time_Now W)\<rparr>, None) else (cfg, None))"

text \<open>Indexing the region table with a missing key gives the empty string.\<close>

definition derive_ClusterName :: "lib \<Rightarrow> world \<Rightarrow> Config \<Rightarrow> Config \<times> error option" where
  "derive_ClusterName L W cfg =
     (if ClusterName cfg = '''' then
        (let airport = (case RegionToAiport L (AWSRegion cfg) of None \<Rightarrow> '''' | Some a \<Rightarrow> a)
         in (cfg\<lparr>ClusterName :=
                   Tag cfg @ ''-'' @ strings_ToLower L airport @ ''-'' @ AWSRegion cfg @ ''-''
                     @ randString W 5\<rparr>, None))
      else (cfg, None))"

text \<open>The error of \<open>filepath.Abs\<close> is dropped; its string is stored whatever it is.\<close>

definition derive_ConfigPath :: "world \<Rightarrow> Config \<Rightarrow> Config \<times> error option" where
  "derive_ConfigPath W cfg =
     (if ConfigPath cfg = '''' then
        (case ioutil_TempFile W (os_TempDir W) ''ec2config'' of
           (name, Some err) \<Rightarrow> (cfg, Some err)
         | (name, None) \<Rightarrow> (cfg\<lparr>ConfigPath := fst (filepath_Abs W name)\<rparr>, None))
      else (cfg, None))"

fun logOutputExist :: "string \<Rightarrow> string list \<Rightarrow> bool" where
  "logOutputExist p [] = False"
| "logOutputExist p (lv # lvs) = (if p = lv then True else logOutputExist p lvs)"

definition derive_LogOutputs :: "lib \<Rightarrow> world \<Rightarrow> Config \<Rightarrow> Config \<times> error option" where
  "derive_LogOutputs L W cfg =
     (let cfg1 = cfg\<lparr>ConfigPathBucket := filepath_Join L [ClusterName cfg, ''ec2config.yaml'']\<rparr>;
          cfg2 = cfg1\<lparr>LogOutputToUploadPath :=
                        filepath_Join L [os_TempDir W, ClusterName cfg1 @ ''.log'']\<rparr>;
          cfg3 = (if \<not> logOutputExist (LogOutputToUploadPath cfg2) (LogOutputs cfg2)
                  then cfg2\<lparr>LogOutputs := LogOutputs cfg2 @ [LogOutputToUploadPath cfg2]\<rparr>
                  else cfg2)
      in (cfg3\<lparr>LogOutputToUploadPathBucket := filepath_Join L [ClusterName cfg3, ''ec2.log'']\<rparr>,
          None))"

definition derive_KeyName :: "lib \<Rightarrow> Config \<Rightarrow> Config \<times> error option" where
  "derive_KeyName L cfg =
     (let cfg1 = (if KeyName cfg = '''' then cfg\<lparr>KeyName := ClusterName cfg\<rparr> else cfg)
      in (cfg1\<lparr>KeyPathBucket := filepath_Join L [ClusterName cfg1, ''ec2.key'']\<rparr>, None))"

definition derive_KeyPath :: "world \<Rightarrow> Config \<Rightarrow> Config \<times> error option" where
  "derive_KeyPath W cfg =
     (if KeyPath cfg = '''' then
        (case ioutil_TempFile W (os_TempDir W) ''ec2.key'' of
           (name, Some err) \<Rightarrow> (cfg, Some err)
         | (name, None) \<Rightarrow> (cfg\<lparr>KeyPath := fst (filepath_Abs W name)\<rparr>, None))
      else (cfg, None))"

definition derive_InstanceProfile :: "world \<Rightarrow> Config \<Rightarrow> Config \<times> error option" where
  "derive_InstanceProfile W cfg =
     (if InstanceProfileFilePath cfg \<noteq> '''' then
        (case os_Stat W (InstanceProfileFilePath cfg) of
           Some err \<Rightarrow> (cfg, Some (InstanceProfileMissing (InstanceProfileFilePath cfg) err))
         | None \<Rightarrow>
             (let cfg1 = cfg\<lparr>InstanceProfileName := ClusterName cfg @ ''-instance-profile''\<rparr>;
                  cfg2 = cfg1\<lparr>InstanceProfileRoleName := InstanceProfileName cfg1 @ ''-role''\<rparr>
              in (cfg2\<lparr>InstanceProfilePolicyName := InstanceProfileName cfg2 @ ''-policy''\<rparr>,
                  None)))
      else (cfg, None))"

text \<open>
  \<open>ValidateAndSetDefaults\<close>: the blocks in the order of the source. The result is the
  receiver after the call and the error returned.
\<close>

definition ValidateAndSetDefaults :: "lib \<Rightarrow> world \<Rightarrow> Config \<Rightarrow> Config \<times> error option" where
  "ValidateAndSetDefaults L W cfg =
     foldl then_do (cfg, None)
       [check_inputs L,
        build_InitScript L,
        check_instances,
        derive_Tag W,
        derive_ClusterName L W,
        derive_ConfigPath W,
        derive_LogOutputs L W,
        derive_KeyName L,
        derive_KeyPath W,
        derive_InstanceProfile W]"

subsection \<open>Load and Sync\<close>

text \<open>
  The serializer (\<open>sigs.k8s.io/yaml\<close>) is outside the sources: \<open>yaml_Marshal\<close> and
  \<open>yaml_Unmarshal\<close> (into a fresh \<open>Config\<close>) are parameters over any type \<open>'d\<close> of
  documents. The disk maps a path to the document stored there; \<open>write_error\<close> says
  which paths refuse a write.
\<close>

record 'd codec =
  yaml_Marshal :: "Config \<Rightarrow> 'd \<times> error option"
  yaml_Unmarshal :: "'d \<Rightarrow> Config \<times> error option"

record 'd disk =
  files :: "string \<rightharpoonup> 'd"
  write_error :: "string \<Rightarrow> error option"

definition ReadFile :: "'d disk \<Rightarrow> string \<Rightarrow> error + 'd" where
  "ReadFile D p = (case files D p of None \<Rightarrow> Inl (ExtErr p) | Some d \<Rightarrow> Inr d)"

definition WriteFile :: "'d disk \<Rightarrow> string \<Rightarrow> 'd \<Rightarrow> 'd disk \<times> error option" where
  "WriteFile D p d =
     (case write_error D p of
        Some e \<Rightarrow> (D, Some e)
      | None \<Rightarrow> (D\<lparr>files := (files D)(p \<mapsto> d)\<rparr>, None))"

text \<open>\<open>Load\<close> returns the configuration (\<open>None\<close> is the nil pointer) and the error.\<close>

definition Load :: "'d codec \<Rightarrow> world \<Rightarrow> 'd disk \<Rightarrow> string \<Rightarrow> Config option \<times> error option" where
  "Load C W D p =
     (case ReadFile D p of
        Inl err \<Rightarrow> (None, Some err)
      | Inr d \<Rightarrow>
          (case yaml_Unmarshal C d of
             (cfg, Some err) \<Rightarrow> (None, Some err)
           | (cfg, None) \<Rightarrow>
               (let cfg1 = (if Instances cfg = None then cfg\<lparr>Instances := Some Map.empty\<rparr>
                            else cfg);
                    cfg2 = (if ConfigPath cfg1 \<noteq> p then cfg1\<lparr>ConfigPath := p\<rparr> else cfg1);
                    cfg3 = cfg2\<lparr>ConfigPath := fst (filepath_Abs W p)\<rparr>
                in case snd (filepath_Abs W p) of
                     Some err \<Rightarrow> (None, Some err)
                   | None \<Rightarrow> (Some cfg3, None))))"

text \<open>\<open>Sync\<close> returns the receiver after the call, the disk after the call, and the error.\<close>

definition Sync ::
  "lib \<Rightarrow> 'd codec \<Rightarrow> world \<Rightarrow> Config \<Rightarrow> 'd disk \<Rightarrow> Config \<times> 'd disk \<times> error option" where
  "Sync L C W cfg D =
     (let resolved =
            (if \<not> filepath_IsAbs L (ConfigPath cfg)
             then (cfg\<lparr>ConfigPath := fst (filepath_Abs W (ConfigPath cfg))\<rparr>,
                   snd (filepath_Abs W (ConfigPath cfg)))
             else (cfg, None))
      in case resolved of
           (cfg1, Some err) \<Rightarrow> (cfg1, D, Some err)
         | (cfg1, None) \<Rightarrow>
             (let cfg2 = cfg1\<lparr>UpdatedAt := time_Now W\<rparr>
              in case yaml_Marshal C cfg2 of
                   (d, Some err) \<Rightarrow> (cfg2, D, Some err)
                 | (d, None) \<Rightarrow>
                     (case WriteFile D (ConfigPath cfg2) d of
                        (D', werr) \<Rightarrow> (cfg2, D', werr))))"

section \<open>Concrete inputs\<close>

subsection \<open>For createConfigMap\<close>

definition tester0 :: tester where
  "tester0 =
     \<lparr>KubectlPath = ''/usr/local/bin/kubectl'', KubeConfigPath = ''/tmp/kubeconfig'',
      RoleARN = ''arn:aws:iam::123456789012:role/ng-role''\<rparr>"

definition ok_cycle :: cycle where
  "ok_cycle =
     \<lparr>selected = After5s, timer_lag = 0, cmd_err = None,
      cmd_output = ''configmap/aws-auth created'', cmd_took = 10 * second\<rparr>"

definition failed_cycle :: cycle where
  "failed_cycle =
     \<lparr>selected = After5s, timer_lag = 0, cmd_err = Some (ExtErr ''exit status 1''),
      cmd_output = ''Unable to connect to the server'', cmd_took = second\<rparr>"

text \<open>The stop channel fires during the fourth wait, after three passes.\<close>

definition kube_stopped :: kube_world where
  "kube_stopped =
     \<lparr>WriteTempFile = (\<lambda>d. (''/tmp/cm.yaml'', None)),
      cycles = (\<lambda>i. if i = 3 then ok_cycle\<lparr>selected := StopC\<rparr> else ok_cycle),
      EKSConfig_Sync = None\<rparr>"

text \<open>The first apply fails five seconds in; every later one would succeed.\<close>

definition kube_fails_once :: kube_world where
  "kube_fails_once =
     \<lparr>WriteTempFile = (\<lambda>d. (''/tmp/cm.yaml'', None)),
      cycles = (\<lambda>i. if i = 0 then failed_cycle else ok_cycle),
      EKSConfig_Sync = None\<rparr>"

text \<open>Every apply succeeds, ten seconds after its start.\<close>

definition kube_always_ok :: kube_world where
  "kube_always_ok =
     \<lparr>WriteTempFile = (\<lambda>d. (''/tmp/cm.yaml'', None)),
      cycles = (\<lambda>i. ok_cycle),
      EKSConfig_Sync = None\<rparr>"

text \<open>Counting the apply commands and the persistence writes among the actions.\<close>

fun is_apply :: "event \<Rightarrow> bool" where
  "is_apply (KubectlApply k c f) = True"
| "is_apply e = False"

definition applies :: "event list \<Rightarrow> nat" where
  "applies evs = length (filter is_apply evs)"

definition syncs :: "event list \<Rightarrow> nat" where
  "syncs evs = count_list evs EKSConfigSync"

subsection \<open>For the EC2 configuration\<close>

text \<open>
  A library instance: the region table with the default region, a plugin renderer that
  returns a fixed script, byte-wise lower-casing, and joining with a slash (which is
  what \<open>filepath.Join\<close> gives for clean, non-empty elements).
\<close>

definition lower_byte :: "char \<Rightarrow> char" where
  "lower_byte c =
     (case map_of (zip ''ABCDEFGHIJKLMNOPQRSTUVWXYZ'' ''abcdefghijklmnopqrstuvwxyz'') c of
        None \<Rightarrow> c
      | Some l \<Rightarrow> l)"

fun join_slash :: "string list \<Rightarrow> string" where
  "join_slash [] = []"
| "join_slash [e] = e"
| "join_slash (e # f # es) = e @ ''/'' @ join_slash (f # es)"

definition lib0 :: lib where
  "lib0 =
     \<lparr>RegionToAiport = [''us-west-2'' \<mapsto> ''PDX''],
      plugins_Create = (\<lambda>userName customScript plugins. (''#!/usr/bin/env bash'', None)),
      strings_ToLower = map lower_byte,
      filepath_Join = join_slash,
      filepath_IsAbs = (\<lambda>p. take 1 p = ''/''),
      time_ParseDuration = (\<lambda>s. Inl (ExtErr ''time: invalid duration''))\<rparr>"

text \<open>
  A world with no environment variable set, the clock at 14 h on 1 November 2026, and a
  file system that answers every call.
\<close>

definition world0 :: world where
  "world0 =
     \<lparr>os_Getenv = (\<lambda>k. ''''),
      time_Now = \<lparr>Year = 2026, Month = 11, Day = 1, Hour = 14, Minute = 30, Sec = 0, Nsec = 0\<rparr>,
      rand_source = (\<lambda>i. 7 * i + 3),
      os_TempDir = ''/tmp'',
      ioutil_TempFile = (\<lambda>dir pat. (dir @ ''/'' @ pat @ ''570310451'', None)),
      filepath_Abs = (\<lambda>p. (if take 1 p = ''/'' then p else ''/home/tester/'' @ p, None)),
      os_Stat = (\<lambda>p. None)\<rparr>"

text \<open>
  The same world with two overrides set: a region, and a cluster size that is no number.
\<close>

definition world_overlay :: world where
  "world_overlay =
     world0\<lparr>os_Getenv :=
       (\<lambda>k. if k = ''AWS_K8S_TESTER_EC2_AWS_REGION'' then ''eu-west-1''
            else if k = ''AWS_K8S_TESTER_EC2_CLUSTER_SIZE'' then ''three''
            else '''')\<rparr>"

definition cfg_no_instance_type :: Config where
  "cfg_no_instance_type = (defaultConfig ''info'')\<lparr>InstanceType := ''''\<rparr>"

definition cfg_no_plugins :: Config where
  "cfg_no_plugins = (defaultConfig ''info'')\<lparr>Plugins := [], CustomScript := ''echo done''\<rparr>"

definition cfg_repeated_output :: Config where
  "cfg_repeated_output =
     (defaultConfig ''info'')\<lparr>ClusterName := ''c1'', LogOutputs := [''/tmp/c1.log'', ''/tmp/c1.log'']\<rparr>"

text \<open>
  A serializer with the lossy step of the real one. \<open>sigs.k8s.io/yaml\<close> marshals
  through \<open>encoding/json\<close>, which writes U+FFFD (the bytes EF BF BD) in place of every
  byte of a string that starts no valid UTF-8 encoding, and reading back returns the
  strings as written. \<open>utf8_size\<close> is the length of the valid encoding at the head of
  a string (0 if there is none), with the ranges of \<open>unicode/utf8\<close>;
  \<open>json_string\<close> is a string after writing and reading. The documents of
  \<open>codec_json\<close> are configurations whose string and string-list fields have been
  written and read; map entries and instance snapshots are carried as they are.
\<close>

definition in_range :: "char \<Rightarrow> nat \<Rightarrow> nat \<Rightarrow> bool" where
  "in_range c lo hi = (lo \<le> of_char c \<and> (of_char c :: nat) \<le> hi)"

fun conts :: "nat \<Rightarrow> nat \<Rightarrow> nat \<Rightarrow> string \<Rightarrow> bool" where
  "conts lo hi 0 bs = True"
| "conts lo hi (Suc k) [] = False"
| "conts lo hi (Suc k) (c # cs) = (in_range c lo hi \<and> conts 128 191 k cs)"

definition utf8_size :: "string \<Rightarrow> nat" where
  "utf8_size s =
     (case s of
        [] \<Rightarrow> 0
      | b # bs \<Rightarrow>
          (let n = (of_char b :: nat) in
           if n < 128 then 1
           else if 194 \<le> n \<and> n \<le> 223 then
             (if conts 128 191 (Suc 0) bs then 2 else 0)
           else if 224 \<le> n \<and> n \<le> 239 then
             (if conts (if n = 224 then 160 else 128) (if n = 237 then 159 else 191)
                   (Suc (Suc 0)) bs
              then 3 else 0)
           else if 240 \<le> n \<and> n \<le> 244 then
             (if conts (if n = 240 then 144 else 128) (if n = 244 then 143 else 191)
                   (Suc (Suc (Suc 0))) bs
              then 4 else 0)
           else 0))"

function json_string :: "string \<Rightarrow> string" where
  "json_string [] = []"
| "json_string (b # bs) =
     (if utf8_size (b # bs) = 0 then [CHR 0xEF, CHR 0xBF, CHR 0xBD] @ json_string bs
      else take (utf8_size (b # bs)) (b # bs) @ json_string (drop (utf8_size (b # bs)) (b # bs)))"
  by pat_completeness auto
termination
  by (relation "measure length") auto

declare json_string.simps [simp del]

definition json_strings :: "Config \<Rightarrow> Config" where
  "json_strings cfg =
     cfg\<lparr>EnvPrefix := json_string (EnvPrefix cfg),
         AWSAccountID := json_string (AWSAccountID cfg),
         AWSRegion := json_string (AWSRegion cfg),
         LogLevel := json_string (LogLevel cfg),
         LogOutputs := map json_string (LogOutputs cfg),
         LogOutputToUploadPath := json_string (LogOutputToUploadPath cfg),
         LogOutputToUploadPathBucket := json_string (LogOutputToUploadPathBucket cfg),
         LogOutputToUploadPathURL := json_string (LogOutputToUploadPathURL cfg),
         Tag := json_string (Tag cfg),
         ClusterName := json_string (ClusterName cfg),
         ConfigPath := json_string (ConfigPath cfg),
         ConfigPathBucket := json_string (ConfigPathBucket cfg),
         ConfigPathURL := json_string (ConfigPathURL cfg),
         ImageID := json_string (ImageID cfg),
         UserName := json_string (UserName cfg),
         Plugins := map json_string (Plugins cfg),
         InitScript := json_string (InitScript cfg),
         InstanceType := json_string (InstanceType cfg),
         KeyName := json_string (KeyName cfg),
         KeyPath := json_string (KeyPath cfg),
         KeyPathBucket := json_string (KeyPathBucket cfg),
         KeyPathURL := json_string (KeyPathURL cfg),
         VPCCIDR := json_string (VPCCIDR cfg),
         VPCID := json_string (VPCID cfg),
         InternetGatewayID := json_string (InternetGatewayID cfg),
         RouteTableIDs := map json_string (RouteTableIDs cfg),
         SubnetIDs := map json_string (SubnetIDs cfg),
         SecurityGroupIDs := map json_string (SecurityGroupIDs cfg),
         InstanceProfileFilePath := json_string (InstanceProfileFilePath cfg),
         InstanceProfileName := json_string (InstanceProfileName cfg),
         InstanceProfilePolicyName := json_string (InstanceProfilePolicyName cfg),
         InstanceProfilePolicyARN := json_string (InstanceProfilePolicyARN cfg),
         InstanceProfilePolicy := json_string (InstanceProfilePolicy cfg),
         InstanceProfileRoleName := json_string (InstanceProfileRoleName cfg),
         CustomScript := json_string (CustomScript cfg)\<rparr>"

definition codec_json :: "Config codec" where
  "codec_json =
     \<lparr>yaml_Marshal = (\<lambda>cfg. (json_strings cfg, None)), yaml_Unmarshal = (\<lambda>d. (d, None))\<rparr>"

definition disk0 :: "Config disk" where
  "disk0 = \<lparr>files = Map.empty, write_error = (\<lambda>p. None)\<rparr>"

text \<open>An hour later: another clock, other random numbers, other temporary names.\<close>

definition world1 :: world where
  "world1 =
     world0\<lparr>time_Now := \<lparr>Year = 2026, Month = 11, Day = 1, Hour = 15, Minute = 30, Sec = 0, Nsec = 0\<rparr>,
            rand_source := (\<lambda>i. 11 * i + 5),
            ioutil_TempFile := (\<lambda>dir pat. (dir @ ''/'' @ pat @ ''903217746'', None))\<rparr>"

definition cfg_relative_path :: Config where
  "cfg_relative_path = (defaultConfig ''info'')\<lparr>ConfigPath := ''ec2.yaml''\<rparr>"

text \<open>An account ID that ends in the byte FF, which no UTF-8 encoding contains.\<close>

definition cfg_invalid_utf8 :: Config where
  "cfg_invalid_utf8 = cfg_relative_path\<lparr>AWSAccountID := ''id-'' @ [CHR 0xFF]\<rparr>"

section \<open>The ConfigMap artifact: what the document holds\<close>

lemma template_Parse_configMapAuthTempl:
  "template_Parse configMapAuthTempl = Some
    [TextNode
      ''---\<newline>apiVersion: v1\<newline>kind: ConfigMap\<newline>metadata:\<newline>  name: aws-auth\<newline>  namespace: kube-system\<newline>data:\<newline>  mapRoles: |\<newline>    - rolearn: '',
     FieldNode ''NGInstanceRoleARN'',
     TextNode
      ''\<newline>      %s\<newline>      groups:\<newline>      - system:bootstrappers\<newline>      - system:nodes\<newline>'']"
  by code_simp

lemma Sprintf_verbatim:
  "CHR ''%'' \<notin> set xs \<Longrightarrow> Sprintf (xs @ ys) args = map_option ((@) xs) (Sprintf ys args)"
proof (induction xs)
  case Nil
  show ?case by (cases "Sprintf ys args") simp_all
next
  case (Cons x xs)
  then show ?case by (cases "Sprintf ys args") auto
qed

text \<open>
  For a role ARN without a percent sign the document is the template with the ARN in
  place of the action and the user-name line, placeholder included, in place of the verb.
\<close>

lemma configMapAuth_txt_percent_free:
  assumes "CHR ''%'' \<notin> set arn"
  shows "configMapAuth_txt arn = Some (Inr (
    ''---\<newline>apiVersion: v1\<newline>kind: ConfigMap\<newline>metadata:\<newline>  name: aws-auth\<newline>  namespace: kube-system\<newline>data:\<newline>  mapRoles: |\<newline>    - rolearn: ''
    @ arn @ ''\<newline>      '' @ username_line
    @ ''\<newline>      groups:\<newline>      - system:bootstrappers\<newline>      - system:nodes\<newline>''))"
proof -
  let ?pre = "''---\<newline>apiVersion: v1\<newline>kind: ConfigMap\<newline>metadata:\<newline>  name: aws-auth\<newline>  namespace: kube-system\<newline>data:\<newline>  mapRoles: |\<newline>    - rolearn: ''"
  let ?post = "''%s\<newline>      groups:\<newline>      - system:bootstrappers\<newline>      - system:nodes\<newline>''"
  have free: "CHR ''%'' \<notin> set (?pre @ arn @ ''\<newline>      '')"
    using assms by simp
  have "Sprintf ((?pre @ arn @ ''\<newline>      '') @ ?post) [username_line]
          = map_option ((@) (?pre @ arn @ ''\<newline>      '')) (Sprintf ?post [username_line])"
    by (rule Sprintf_verbatim [OF free])
  then show ?thesis
    by (simp add: configMapAuth_txt_def template_Parse_configMapAuthTempl)
qed

text \<open>
  C9. The claim: for every role ARN the document embeds the ARN as the rolearn value and
  holds the placeholder line once, uncorrupted. The code executes the template first and
  then uses the rendered text, ARN included, as the format string of \<open>Sprintf\<close>. At the
  ARN \<open>arn:aws:iam::123456789012:role/ng%srole\<close> the verb inside the ARN takes the
  user-name operand, so the rolearn value is not the ARN, and the verb on the line meant
  for the user name finds no operand and prints \<open>%!s(MISSING)\<close>.
\<close>

theorem configMapAuth_txt_percent_in_arn:
  "configMapAuth_txt ''arn:aws:iam::123456789012:role/ng%srole'' = Some (Inr
     ''---\<newline>apiVersion: v1\<newline>kind: ConfigMap\<newline>metadata:\<newline>  name: aws-auth\<newline>  namespace: kube-system\<newline>data:\<newline>  mapRoles: |\<newline>    - rolearn: arn:aws:iam::123456789012:role/ngusername: system:node:{{EC2PrivateDNSName}}role\<newline>      %!s(MISSING)\<newline>      groups:\<newline>      - system:bootstrappers\<newline>      - system:nodes\<newline>'')"
  by (simp add: configMapAuth_txt_def template_Parse_configMapAuthTempl username_line_def)

section \<open>createConfigMap: the retry loop\<close>

declare retry_loop.simps [simp del]

lemma retry_loop_deadline:
  "\<not> elapsed < waitDur \<Longrightarrow>
   retry_loop W ts p i elapsed
     = ([LogInfo ''created ConfigMap'', EKSConfigSync], EKSConfig_Sync W)"
  by (simp add: retry_loop.simps)

lemma retry_loop_failure_returns:
  assumes "elapsed < waitDur" and "selected (cycles W i) = After5s"
    and "cmd_err (cycles W i) = Some e"
  shows "retry_loop W ts p i elapsed
     = ([KubectlApply (KubectlPath ts) (''--kubeconfig='' @ KubeConfigPath ts) (''--filename='' @ p)],
        Some (KubectlFailed e (cmd_output (cycles W i))))"
  using assms by (subst retry_loop.simps) (simp add: Let_def)

lemma retry_loop_success_continues:
  assumes "elapsed < waitDur" and "selected (cycles W i) = After5s"
    and "cmd_err (cycles W i) = None"
  shows "retry_loop W ts p i elapsed
     = (case retry_loop W ts p (Suc i)
               (elapsed + 5 * second + timer_lag (cycles W i) + cmd_took (cycles W i)) of
          (evs, r) \<Rightarrow>
            (KubectlApply (KubectlPath ts) (''--kubeconfig='' @ KubeConfigPath ts) (''--filename='' @ p)
               # Stdout (cmd_output (cycles W i))
               # LogWarn ''create ConfigMap failed''
               # RecordStatus ''create ConfigMap failed (<nil>)'' # evs, r))"
  using assms by (subst retry_loop.simps) (simp add: Let_def)

lemma writeConfigMapAuth_tester0:
  "writeConfigMapAuth (\<lambda>d. (''/tmp/cm.yaml'', None)) (RoleARN tester0) = Some (''/tmp/cm.yaml'', None)"
proof -
  have "CHR ''%'' \<notin> set (RoleARN tester0)"
    by (simp add: tester0_def)
  then show ?thesis
    by (simp add: writeConfigMapAuth_def configMapAuth_txt_percent_free)
qed

text \<open>
  C6. If the stop channel or the interrupt signal is the case of the \<open>select\<close> that
  fires in the wait of a pass, whatever the time elapsed below the deadline, the loop
  returns the abort error from there and performs no action at all after it: no apply
  command is run.
\<close>

theorem retry_loop_abort_in_wait:
  assumes "elapsed < waitDur"
    and "selected (cycles W i) = StopC \<or> selected (cycles W i) = SigC"
  shows "retry_loop W ts p i elapsed = ([], Some Aborted)"
  using assms by (subst retry_loop.simps) auto

theorem retry_loop_abort_in_wait_witness:
  "45 * second < waitDur
   \<and> (selected (cycles kube_stopped 3) = StopC \<or> selected (cycles kube_stopped 3) = SigC)
   \<and> retry_loop kube_stopped tester0 ''/tmp/cm.yaml'' 3 (45 * second) = ([], Some Aborted)"
proof -
  have a: "45 * second < waitDur"
    by (simp add: waitDur_def second_def)
  have b: "selected (cycles kube_stopped 3) = StopC \<or> selected (cycles kube_stopped 3) = SigC"
    by (simp add: kube_stopped_def)
  show ?thesis
    using a b retry_loop_abort_in_wait [OF a b, of tester0 "''/tmp/cm.yaml''"] by simp
qed

text \<open>
  C1. The claim: a failed apply attempt before the deadline is recorded and retried.
  The code returns from the branch for a failed command: with a first apply that fails
  five seconds after the start, and later applies that would succeed,
  \<open>createConfigMap\<close> runs one apply command, records no status, and returns the
  error of that first attempt with 295 seconds of the deadline left.
\<close>

theorem createConfigMap_first_failure_returns:
  "createConfigMap kube_fails_once tester0
     = Some ([LogInfo ''writing ConfigMap'',
              KubectlApply ''/usr/local/bin/kubectl'' ''--kubeconfig=/tmp/kubeconfig''
                ''--filename=/tmp/cm.yaml''],
             Some (KubectlFailed (ExtErr ''exit status 1'') ''Unable to connect to the server''))"
proof -
  have w: "writeConfigMapAuth (WriteTempFile kube_fails_once) (RoleARN tester0)
             = Some (''/tmp/cm.yaml'', None)"
    using writeConfigMapAuth_tester0 by (simp add: kube_fails_once_def)
  have "retry_loop kube_fails_once tester0 ''/tmp/cm.yaml'' 0 0
          = ([KubectlApply (KubectlPath tester0) (''--kubeconfig='' @ KubeConfigPath tester0)
                (''--filename='' @ ''/tmp/cm.yaml'')],
             Some (KubectlFailed (ExtErr ''exit status 1'') (cmd_output (cycles kube_fails_once 0))))"
    by (rule retry_loop_failure_returns)
       (simp_all add: kube_fails_once_def failed_cycle_def waitDur_def second_def)
  then show ?thesis
    using w by (simp add: createConfigMap_def kube_fails_once_def failed_cycle_def tester0_def)
qed

text \<open>
  C2. The claim: after a successful apply the loop makes no further attempt and returns
  after one persistence write. The code after the failure branch is the warning
  \<open>create ConfigMap failed\<close> and the end of the loop body, so a success starts the
  next pass: when every apply succeeds within ten seconds, \<open>createConfigMap\<close> runs
  twenty apply commands, recording a failure after each, until the five minutes are
  over, and only then writes once.
\<close>

theorem createConfigMap_success_repeats:
  "(case createConfigMap kube_always_ok tester0 of
      None \<Rightarrow> False
    | Some (evs, r) \<Rightarrow>
        applies evs = 20 \<and> syncs evs = 1 \<and> r = None
        \<and> take 6 evs =
            [LogInfo ''writing ConfigMap'',
             KubectlApply ''/usr/local/bin/kubectl'' ''--kubeconfig=/tmp/kubeconfig''
               ''--filename=/tmp/cm.yaml'',
             Stdout ''configmap/aws-auth created'',
             LogWarn ''create ConfigMap failed'',
             RecordStatus ''create ConfigMap failed (<nil>)'',
             KubectlApply ''/usr/local/bin/kubectl'' ''--kubeconfig=/tmp/kubeconfig''
               ''--filename=/tmp/cm.yaml''])"
proof -
  have w: "writeConfigMapAuth (WriteTempFile kube_always_ok) (RoleARN tester0)
             = Some (''/tmp/cm.yaml'', None)"
    using writeConfigMapAuth_tester0 by (simp add: kube_always_ok_def)
  show ?thesis
    by (simp add: createConfigMap_def w)
       (simp add: retry_loop.simps kube_always_ok_def ok_cycle_def tester0_def waitDur_def
          second_def applies_def syncs_def)
qed

section \<open>UpdateFromEnvs\<close>

lemma update_fields_world_overlay:
  "update_fields L world_overlay envPfx Config_fields cc
     = (cc\<lparr>AWSRegion := ''eu-west-1''\<rparr>,
        Some (ParseFailed ''three'' ''AWS_K8S_TESTER_EC2_CLUSTER_SIZE'' (ExtErr ''invalid syntax'')))"
  by (simp add: Config_fields_def env_key_def envPfx_def ToUpper_def upper_byte_def
        world_overlay_def ParseInt_def is_digit_def Let_def)

lemma EnvPrefix_defaultConfig: "EnvPrefix (defaultConfig lvl) = envPfx"
  by (simp add: defaultConfig_def)

lemma AWSRegion_defaultConfig: "AWSRegion (defaultConfig lvl) = ''us-west-2''"
  by (simp add: defaultConfig_def)

text \<open>
  C3, as claimed: when \<open>UpdateFromEnvs\<close> fails at a later field, an earlier field that
  was overridden holds the overridden value on the configuration. With the region
  overridden to \<open>eu-west-1\<close> and a cluster size that does not parse, the call fails at
  the cluster size; the working copy holds the new region, the configuration still holds
  \<open>us-west-2\<close>.
\<close>

theorem UpdateFromEnvs_no_rollback_counterexample:
  "snd (UpdateFromEnvs lib0 world_overlay (defaultConfig ''info''))
     = Some (ParseFailed ''three'' ''AWS_K8S_TESTER_EC2_CLUSTER_SIZE'' (ExtErr ''invalid syntax''))
   \<and> AWSRegion (fst (update_fields lib0 world_overlay (EnvPrefix (defaultConfig ''info''))
                        Config_fields (defaultConfig ''info''))) = ''eu-west-1''
   \<and> AWSRegion (fst (UpdateFromEnvs lib0 world_overlay (defaultConfig ''info''))) = ''us-west-2''"
  by (simp add: UpdateFromEnvs_def EnvPrefix_defaultConfig update_fields_world_overlay
        AWSRegion_defaultConfig)

text \<open>
  C3, amended: \<open>UpdateFromEnvs\<close> works on a copy of the configuration and assigns the
  copy back only when every override has been applied. If it returns an error, the
  configuration is what it was before the call: the overrides processed before the
  failing one are in the discarded copy only.
\<close>

theorem UpdateFromEnvs_error_keeps_receiver:
  assumes "snd (UpdateFromEnvs L W cfg) \<noteq> None"
  shows "fst (UpdateFromEnvs L W cfg) = cfg"
  using assms by (simp add: UpdateFromEnvs_def split: prod.splits option.splits)

theorem UpdateFromEnvs_error_keeps_receiver_witness:
  "snd (UpdateFromEnvs lib0 world_overlay (defaultConfig ''info'')) \<noteq> None
   \<and> fst (UpdateFromEnvs lib0 world_overlay (defaultConfig ''info'')) = defaultConfig ''info''"
proof -
  have failed: "snd (UpdateFromEnvs lib0 world_overlay (defaultConfig ''info'')) \<noteq> None"
    by (simp add: UpdateFromEnvs_def EnvPrefix_defaultConfig update_fields_world_overlay)
  show ?thesis
    using failed UpdateFromEnvs_error_keeps_receiver [OF failed] by simp
qed

section \<open>ValidateAndSetDefaults\<close>

subsection \<open>Running the blocks\<close>

lemma then_do_None [simp]: "then_do (cfg, None) blk = blk cfg"
  by (simp add: then_do_def)

lemma then_do_Some [simp]: "then_do (cfg, Some e) blk = (cfg, Some e)"
  by (simp add: then_do_def)

lemma foldl_then_do_Some [simp]: "foldl then_do (cfg, Some e) blks = (cfg, Some e)"
  by (induction blks) simp_all

lemma foldl_then_do_fst:
  assumes "P (fst r)" and "\<And>blk c. blk \<in> set blks \<Longrightarrow> P c \<Longrightarrow> P (fst (blk c))"
  shows "P (fst (foldl then_do r blks))"
  using assms
proof (induction blks arbitrary: r)
  case Nil
  then show ?case by simp
next
  case (Cons blk blks)
  have "P (fst (then_do r blk))"
  proof (cases r)
    case (Pair c eo)
    with Cons.prems show ?thesis by (cases eo) simp_all
  qed
  then show ?case using Cons by simp
qed

lemma then_do_success:
  "then_do r blk = (c', None) \<longleftrightarrow> (\<exists>c. r = (c, None) \<and> blk c = (c', None))"
proof (cases r)
  case (Pair c eo)
  then show ?thesis by (cases eo) auto
qed

subsection \<open>The init script\<close>

lemma build_InitScript_skipped:
  "Plugins cfg = [] \<or> InitScriptCreated cfg \<Longrightarrow> build_InitScript L cfg = (cfg, None)"
  by (auto simp: build_InitScript_def)

lemma build_InitScript_frame:
  "fst (build_InitScript L cfg)
     = cfg\<lparr>InitScript := InitScript (fst (build_InitScript L cfg)),
           InitScriptCreated := InitScriptCreated (fst (build_InitScript L cfg))\<rparr>"
  by (simp add: build_InitScript_def Let_def split: option.splits)

text \<open>
  C10. With an empty plugin list, \<open>ValidateAndSetDefaults\<close> leaves \<open>InitScript\<close> and
  \<open>InitScriptCreated\<close> as they were, whatever the custom script and whatever the
  outcome of the call.
\<close>

theorem ValidateAndSetDefaults_no_plugins:
  assumes "Plugins cfg = []"
  shows "InitScript (fst (ValidateAndSetDefaults L W cfg)) = InitScript cfg
       \<and> InitScriptCreated (fst (ValidateAndSetDefaults L W cfg)) = InitScriptCreated cfg"
proof -
  let ?P = "\<lambda>c::Config. Plugins c = [] \<and> InitScript c = InitScript cfg
                \<and> InitScriptCreated c = InitScriptCreated cfg"
  have "?P (fst (foldl then_do (cfg, None)
          [check_inputs L, build_InitScript L, check_instances, derive_Tag W,
           derive_ClusterName L W, derive_ConfigPath W, derive_LogOutputs L W,
           derive_KeyName L, derive_KeyPath W, derive_InstanceProfile W]))"
  proof (rule foldl_then_do_fst)
    show "?P (fst (cfg, None))" using assms by simp
  next
    fix blk c
    assume "blk \<in> set [check_inputs L, build_InitScript L, check_instances, derive_Tag W,
           derive_ClusterName L W, derive_ConfigPath W, derive_LogOutputs L W,
           derive_KeyName L, derive_KeyPath W, derive_InstanceProfile W]"
      and "?P c"
    then show "?P (fst (blk c))"
      by (auto simp: check_inputs_def build_InitScript_def check_instances_def derive_Tag_def
            derive_ClusterName_def derive_ConfigPath_def derive_LogOutputs_def
            derive_KeyName_def derive_KeyPath_def derive_InstanceProfile_def Let_def
          split: if_splits option.splits prod.splits)
  qed
  then show ?thesis by (simp add: ValidateAndSetDefaults_def)
qed

theorem ValidateAndSetDefaults_no_plugins_witness:
  "Plugins cfg_no_plugins = [] \<and> CustomScript cfg_no_plugins = ''echo done''
   \<and> InitScript (fst (ValidateAndSetDefaults lib0 world0 cfg_no_plugins)) = InitScript cfg_no_plugins
   \<and> InitScriptCreated (fst (ValidateAndSetDefaults lib0 world0 cfg_no_plugins))
       = InitScriptCreated cfg_no_plugins"
proof -
  have empty: "Plugins cfg_no_plugins = []"
    by (simp add: cfg_no_plugins_def)
  have "CustomScript cfg_no_plugins = ''echo done''"
    by (simp add: cfg_no_plugins_def)
  then show ?thesis
    using empty ValidateAndSetDefaults_no_plugins [OF empty, of lib0 world0] by simp
qed

subsection \<open>Failed checks\<close>

lemma check_inputs_failed:
  assumes "length (LogOutputs cfg) = 0 \<or> AWSRegion cfg = '''' \<or> RegionToAiport L (AWSRegion cfg) = None
           \<or> UserName cfg = '''' \<or> ImageID cfg = ''''"
  shows "\<exists>e. check_inputs L cfg = (cfg, Some e)"
  using assms by (auto simp: check_inputs_def)

lemma check_inputs_passed:
  assumes "\<not> (length (LogOutputs cfg) = 0 \<or> AWSRegion cfg = '''' \<or> RegionToAiport L (AWSRegion cfg) = None
           \<or> UserName cfg = '''' \<or> ImageID cfg = '''')"
  shows "check_inputs L cfg = (cfg, None)"
  using assms by (auto simp: check_inputs_def)

lemma check_instances_failed:
  assumes "InstanceType cfg = '''' \<or> ClusterSize cfg < 1"
  shows "\<exists>e. check_instances cfg = (cfg, Some e)"
  using assms by (auto simp: check_instances_def)

lemma build_InitScript_keeps_instances:
  "InstanceType (fst (build_InitScript L cfg)) = InstanceType cfg
   \<and> ClusterSize (fst (build_InitScript L cfg)) = ClusterSize cfg"
  by (simp add: build_InitScript_def Let_def split: option.splits)

text \<open>
  C4, as claimed: a failed check leaves no field written, the init script and its flag
  included. The default configuration without an instance type fails the fifth check,
  and by then the init script has been rendered and the flag set.
\<close>

theorem ValidateAndSetDefaults_no_mutation_counterexample:
  "snd (ValidateAndSetDefaults lib0 world0 cfg_no_instance_type) = Some EmptyInstanceType
   \<and> \<not> InitScriptCreated cfg_no_instance_type
   \<and> InitScriptCreated (fst (ValidateAndSetDefaults lib0 world0 cfg_no_instance_type))
   \<and> InitScript cfg_no_instance_type = ''''
   \<and> InitScript (fst (ValidateAndSetDefaults lib0 world0 cfg_no_instance_type))
       = ''#!/usr/bin/env bash\<newline>''"
  by (simp add: ValidateAndSetDefaults_def check_inputs_def build_InitScript_def
        check_instances_def Let_def lib0_def cfg_no_instance_type_def defaultConfig_def
        zero_Config_def)

lemma build_InitScript_error:
  "snd (build_InitScript L cfg)
     = (if length (Plugins cfg) > 0 \<and> \<not> InitScriptCreated cfg
        then snd (plugins_Create L (UserName cfg) (CustomScript cfg) (Plugins cfg))
        else None)"
  by (simp add: build_InitScript_def Let_def split: option.splits)

lemma check_inputs_error:
  "check_inputs L cfg =
     (cfg,
      if length (LogOutputs cfg) = 0 then Some LogOutputsNotSpecified
      else if AWSRegion cfg = '''' then Some EmptyAWSRegion
      else if RegionToAiport L (AWSRegion cfg) = None then Some (RegionNotFound (AWSRegion cfg))
      else if UserName cfg = '''' then Some EmptyUserName
      else if ImageID cfg = '''' then Some EmptyImageID
      else None)"
  by (simp add: check_inputs_def)

lemma check_instances_error:
  "check_instances cfg =
     (cfg,
      if InstanceType cfg = '''' then Some EmptyInstanceType
      else if ClusterSize cfg < 1 then Some UnexpectedClusterSize
      else None)"
  by (simp add: check_instances_def)

text \<open>
  C4, amended: when one of the six checks fails, the call returns the error of the
  first check that fails, in the order of the source: no log outputs, empty region,
  region not in the table (with the region in the error), empty user name, empty image
  ID, empty instance type, cluster size below one. The one exception is a configuration
  that passes the first four checks and whose init script block fails: the block runs
  before the instance type is checked, and its error is the one returned. The call
  writes no field other than \<open>InitScript\<close> and \<open>InitScriptCreated\<close>. If one of the
  first four checks fails (log outputs, region, user name, image ID), or the plugin list
  is empty, or the init script was built before, the configuration is not written at
  all. A configuration that passes these and fails on the instance type or the cluster
  size has had its init script block run first.
\<close>

theorem ValidateAndSetDefaults_failed_check:
  assumes "length (LogOutputs cfg) = 0 \<or> AWSRegion cfg = '''' \<or> RegionToAiport L (AWSRegion cfg) = None
           \<or> UserName cfg = '''' \<or> ImageID cfg = ''''
           \<or> InstanceType cfg = '''' \<or> ClusterSize cfg < 1"
  shows "snd (ValidateAndSetDefaults L W cfg) =
           (if length (LogOutputs cfg) = 0 then Some LogOutputsNotSpecified
            else if AWSRegion cfg = '''' then Some EmptyAWSRegion
            else if RegionToAiport L (AWSRegion cfg) = None
              then Some (RegionNotFound (AWSRegion cfg))
            else if UserName cfg = '''' then Some EmptyUserName
            else if ImageID cfg = '''' then Some EmptyImageID
            else if length (Plugins cfg) > 0 \<and> \<not> InitScriptCreated cfg
                    \<and> snd (plugins_Create L (UserName cfg) (CustomScript cfg) (Plugins cfg)) \<noteq> None
              then snd (plugins_Create L (UserName cfg) (CustomScript cfg) (Plugins cfg))
            else if InstanceType cfg = '''' then Some EmptyInstanceType
            else Some UnexpectedClusterSize)
       \<and> snd (ValidateAndSetDefaults L W cfg) \<noteq> None
       \<and> fst (ValidateAndSetDefaults L W cfg)
           = cfg\<lparr>InitScript := InitScript (fst (ValidateAndSetDefaults L W cfg)),
                 InitScriptCreated := InitScriptCreated (fst (ValidateAndSetDefaults L W cfg))\<rparr>
       \<and> (length (LogOutputs cfg) = 0 \<or> AWSRegion cfg = '''' \<or> RegionToAiport L (AWSRegion cfg) = None
           \<or> UserName cfg = '''' \<or> ImageID cfg = '''' \<or> Plugins cfg = [] \<or> InitScriptCreated cfg
          \<longrightarrow> fst (ValidateAndSetDefaults L W cfg) = cfg)"
proof (cases "length (LogOutputs cfg) = 0 \<or> AWSRegion cfg = '''' \<or> RegionToAiport L (AWSRegion cfg) = None
           \<or> UserName cfg = '''' \<or> ImageID cfg = ''''")
  case True
  then obtain e where failed: "check_inputs L cfg = (cfg, Some e)"
    using check_inputs_failed by blast
  then have run: "ValidateAndSetDefaults L W cfg = (cfg, Some e)"
    by (simp add: ValidateAndSetDefaults_def)
  from failed have "Some e =
           (if length (LogOutputs cfg) = 0 then Some LogOutputsNotSpecified
            else if AWSRegion cfg = '''' then Some EmptyAWSRegion
            else if RegionToAiport L (AWSRegion cfg) = None
              then Some (RegionNotFound (AWSRegion cfg))
            else if UserName cfg = '''' then Some EmptyUserName
            else if ImageID cfg = '''' then Some EmptyImageID
            else None)"
    by (subst (asm) check_inputs_error) simp
  with True have "Some e =
           (if length (LogOutputs cfg) = 0 then Some LogOutputsNotSpecified
            else if AWSRegion cfg = '''' then Some EmptyAWSRegion
            else if RegionToAiport L (AWSRegion cfg) = None
              then Some (RegionNotFound (AWSRegion cfg))
            else if UserName cfg = '''' then Some EmptyUserName
            else if ImageID cfg = '''' then Some EmptyImageID
            else if length (Plugins cfg) > 0 \<and> \<not> InitScriptCreated cfg
                    \<and> snd (plugins_Create L (UserName cfg) (CustomScript cfg) (Plugins cfg)) \<noteq> None
              then snd (plugins_Create L (UserName cfg) (CustomScript cfg) (Plugins cfg))
            else if InstanceType cfg = '''' then Some EmptyInstanceType
            else Some UnexpectedClusterSize)"
    by (auto split: if_splits)
  with run True show ?thesis by simp
next
  case False
  then have passed: "check_inputs L cfg = (cfg, None)"
    by (rule check_inputs_passed)
  from False assms have bad: "InstanceType cfg = '''' \<or> ClusterSize cfg < 1"
    by blast
  obtain c1 eo where built: "build_InitScript L cfg = (c1, eo)"
    by (cases "build_InitScript L cfg")
  have eo: "eo = (if length (Plugins cfg) > 0 \<and> \<not> InitScriptCreated cfg
                  then snd (plugins_Create L (UserName cfg) (CustomScript cfg) (Plugins cfg))
                  else None)"
    using build_InitScript_error [of L cfg] built by simp
  have frame: "c1 = cfg\<lparr>InitScript := InitScript c1, InitScriptCreated := InitScriptCreated c1\<rparr>"
    using build_InitScript_frame [of L cfg] built by simp
  have skipped: "Plugins cfg = [] \<or> InitScriptCreated cfg \<Longrightarrow> c1 = cfg"
    using build_InitScript_skipped [of cfg L] built by simp
  have kept: "InstanceType c1 = InstanceType cfg" "ClusterSize c1 = ClusterSize cfg"
    using build_InitScript_keeps_instances [of L cfg] built by simp_all
  have inst: "check_instances c1 =
      (c1, if InstanceType cfg = '''' then Some EmptyInstanceType else Some UnexpectedClusterSize)"
    using bad by (auto simp: check_instances_error kept)
  have run: "ValidateAndSetDefaults L W cfg =
      (c1, if eo \<noteq> None then eo
           else if InstanceType cfg = '''' then Some EmptyInstanceType
           else Some UnexpectedClusterSize)"
  proof (cases eo)
    case None
    with passed built inst show ?thesis by (simp add: ValidateAndSetDefaults_def)
  next
    case (Some e')
    with passed built show ?thesis by (simp add: ValidateAndSetDefaults_def)
  qed
  have err: "snd (ValidateAndSetDefaults L W cfg) =
           (if length (Plugins cfg) > 0 \<and> \<not> InitScriptCreated cfg
                    \<and> snd (plugins_Create L (UserName cfg) (CustomScript cfg) (Plugins cfg)) \<noteq> None
              then snd (plugins_Create L (UserName cfg) (CustomScript cfg) (Plugins cfg))
            else if InstanceType cfg = '''' then Some EmptyInstanceType
            else Some UnexpectedClusterSize)"
    by (simp add: run eo)
  have some: "snd (ValidateAndSetDefaults L W cfg) \<noteq> None"
    by (cases eo) (simp_all add: run)
  have fst: "fst (ValidateAndSetDefaults L W cfg) = c1"
    by (simp add: run)
  from False have c: "length (LogOutputs cfg) \<noteq> 0" "AWSRegion cfg \<noteq> ''''"
      "RegionToAiport L (AWSRegion cfg) \<noteq> None" "UserName cfg \<noteq> ''''" "ImageID cfg \<noteq> ''''"
    by simp_all
  show ?thesis
    unfolding fst using err[unfolded fst] some frame skipped c
    by (simp only: if_False fst) auto
qed

theorem ValidateAndSetDefaults_failed_check_witness:
  "(length (LogOutputs cfg_no_instance_type) = 0 \<or> AWSRegion cfg_no_instance_type = ''''
      \<or> RegionToAiport lib0 (AWSRegion cfg_no_instance_type) = None
      \<or> UserName cfg_no_instance_type = '''' \<or> ImageID cfg_no_instance_type = ''''
      \<or> InstanceType cfg_no_instance_type = '''' \<or> ClusterSize cfg_no_instance_type < 1)
   \<and> snd (ValidateAndSetDefaults lib0 world0 cfg_no_instance_type) = Some EmptyInstanceType
   \<and> fst (ValidateAndSetDefaults lib0 world0 cfg_no_instance_type)
       = cfg_no_instance_type
           \<lparr>InitScript := InitScript (fst (ValidateAndSetDefaults lib0 world0 cfg_no_instance_type)),
            InitScriptCreated :=
              InitScriptCreated (fst (ValidateAndSetDefaults lib0 world0 cfg_no_instance_type))\<rparr>"
proof -
  have bad: "length (LogOutputs cfg_no_instance_type) = 0 \<or> AWSRegion cfg_no_instance_type = ''''
      \<or> RegionToAiport lib0 (AWSRegion cfg_no_instance_type) = None
      \<or> UserName cfg_no_instance_type = '''' \<or> ImageID cfg_no_instance_type = ''''
      \<or> InstanceType cfg_no_instance_type = '''' \<or> ClusterSize cfg_no_instance_type < 1"
    by (simp add: cfg_no_instance_type_def)
  note failed = ValidateAndSetDefaults_failed_check [OF bad, of world0]
  have inputs: "length (LogOutputs cfg_no_instance_type) \<noteq> 0" "AWSRegion cfg_no_instance_type \<noteq> ''''"
      "RegionToAiport lib0 (AWSRegion cfg_no_instance_type) \<noteq> None"
      "UserName cfg_no_instance_type \<noteq> ''''" "ImageID cfg_no_instance_type \<noteq> ''''"
      "InstanceType cfg_no_instance_type = ''''"
      "snd (plugins_Create lib0 (UserName cfg_no_instance_type) (CustomScript cfg_no_instance_type)
              (Plugins cfg_no_instance_type)) = None"
    by (simp_all add: cfg_no_instance_type_def defaultConfig_def lib0_def)
  from failed have "snd (ValidateAndSetDefaults lib0 world0 cfg_no_instance_type) = Some EmptyInstanceType"
    by (simp only: inputs if_False if_True simp_thms)
  with bad failed show ?thesis
    by blast
qed

subsection \<open>What each block does when it does not return\<close>

lemma check_inputs_success:
  assumes "check_inputs L c = (c', None)"
  shows "c' = c \<and> LogOutputs c \<noteq> [] \<and> AWSRegion c \<noteq> '''' \<and> RegionToAiport L (AWSRegion c) \<noteq> None
         \<and> UserName c \<noteq> '''' \<and> ImageID c \<noteq> ''''"
  using assms by (auto simp: check_inputs_def split: if_splits)

lemma build_InitScript_success:
  assumes "build_InitScript L c = (c', None)"
  shows "\<exists>s b. c' = c\<lparr>InitScript := s, InitScriptCreated := b\<rparr> \<and> (Plugins c = [] \<or> b)"
proof (cases "length (Plugins c) > 0 \<and> \<not> InitScriptCreated c")
  case True
  with assms have "c' = c\<lparr>InitScript := InitScript c', InitScriptCreated := True\<rparr>"
    by (auto simp: build_InitScript_def Let_def split: option.splits)
  then show ?thesis by blast
next
  case False
  with assms have "c' = c\<lparr>InitScript := InitScript c, InitScriptCreated := InitScriptCreated c\<rparr>"
    by (auto simp: build_InitScript_def)
  moreover from False have "Plugins c = [] \<or> InitScriptCreated c" by auto
  ultimately show ?thesis by blast
qed

lemma check_instances_success:
  assumes "check_instances c = (c', None)"
  shows "c' = c \<and> InstanceType c \<noteq> '''' \<and> \<not> ClusterSize c < 1"
  using assms by (auto simp: check_instances_def split: if_splits)

lemma derive_Tag_eq:
  "derive_Tag W c = (c\<lparr>Tag := (if Tag c = '''' then genTag (time_Now W) else Tag c)\<rparr>, None)"
  by (simp add: derive_Tag_def)

lemma derive_ClusterName_eq:
  "derive_ClusterName L W c =
     (c\<lparr>ClusterName :=
          (if ClusterName c = '''' then
             Tag c @ ''-''
               @ strings_ToLower L (case RegionToAiport L (AWSRegion c) of None \<Rightarrow> '''' | Some a \<Rightarrow> a)
               @ ''-'' @ AWSRegion c @ ''-'' @ randString W 5
           else ClusterName c)\<rparr>, None)"
  by (simp add: derive_ClusterName_def Let_def)

lemma derive_ConfigPath_success:
  assumes "derive_ConfigPath W c = (c', None)"
  shows "\<exists>cp. c' = c\<lparr>ConfigPath := cp\<rparr> \<and> (ConfigPath c \<noteq> '''' \<longrightarrow> cp = ConfigPath c)"
proof (cases "ConfigPath c = ''''")
  case True
  with assms have "c' = c\<lparr>ConfigPath := ConfigPath c'\<rparr>"
    by (auto simp: derive_ConfigPath_def split: prod.splits option.splits)
  with True show ?thesis by blast
next
  case False
  with assms have "c' = c\<lparr>ConfigPath := ConfigPath c\<rparr>"
    by (simp add: derive_ConfigPath_def)
  then show ?thesis by blast
qed

lemma derive_LogOutputs_eq:
  "derive_LogOutputs L W c =
     (c\<lparr>ConfigPathBucket := filepath_Join L [ClusterName c, ''ec2config.yaml''],
        LogOutputToUploadPath := filepath_Join L [os_TempDir W, ClusterName c @ ''.log''],
        LogOutputs :=
          (if logOutputExist (filepath_Join L [os_TempDir W, ClusterName c @ ''.log'']) (LogOutputs c)
           then LogOutputs c
           else LogOutputs c @ [filepath_Join L [os_TempDir W, ClusterName c @ ''.log'']]),
        LogOutputToUploadPathBucket := filepath_Join L [ClusterName c, ''ec2.log'']\<rparr>, None)"
  by (simp add: derive_LogOutputs_def Let_def)

lemma derive_KeyName_eq:
  "derive_KeyName L c =
     (c\<lparr>KeyName := (if KeyName c = '''' then ClusterName c else KeyName c),
        KeyPathBucket := filepath_Join L [ClusterName c, ''ec2.key'']\<rparr>, None)"
  by (simp add: derive_KeyName_def Let_def)

lemma derive_KeyPath_success:
  assumes "derive_KeyPath W c = (c', None)"
  shows "\<exists>kp. c' = c\<lparr>KeyPath := kp\<rparr> \<and> (KeyPath c \<noteq> '''' \<longrightarrow> kp = KeyPath c)"
proof (cases "KeyPath c = ''''")
  case True
  with assms have "c' = c\<lparr>KeyPath := KeyPath c'\<rparr>"
    by (auto simp: derive_KeyPath_def split: prod.splits option.splits)
  with True show ?thesis by blast
next
  case False
  with assms have "c' = c\<lparr>KeyPath := KeyPath c\<rparr>"
    by (simp add: derive_KeyPath_def)
  then show ?thesis by blast
qed

lemma derive_InstanceProfile_success:
  assumes "derive_InstanceProfile W c = (c', None)"
  shows "c' = c\<lparr>InstanceProfileName :=
                  (if InstanceProfileFilePath c \<noteq> '''' then ClusterName c @ ''-instance-profile''
                   else InstanceProfileName c),
                InstanceProfileRoleName :=
                  (if InstanceProfileFilePath c \<noteq> ''''
                   then (ClusterName c @ ''-instance-profile'') @ ''-role''
                   else InstanceProfileRoleName c),
                InstanceProfilePolicyName :=
                  (if InstanceProfileFilePath c \<noteq> ''''
                   then (ClusterName c @ ''-instance-profile'') @ ''-policy''
                   else InstanceProfilePolicyName c)\<rparr>
       \<and> (InstanceProfileFilePath c \<noteq> '''' \<longrightarrow> os_Stat W (InstanceProfileFilePath c) = None)"
  using assms by (auto simp: derive_InstanceProfile_def Let_def split: if_splits option.splits)

lemma then_do_successE:
  assumes "then_do r blk = (c', None)"
  obtains c where "r = (c, None)" and "blk c = (c', None)"
  using assms then_do_success by blast

lemma ValidateAndSetDefaults_success_chain:
  assumes "ValidateAndSetDefaults L W cfg = (cfg', None)"
  shows "\<exists>c2 c3 c4 c5 c6 c7 c8 c9.
           check_inputs L cfg = (cfg, None) \<and> build_InitScript L cfg = (c2, None)
         \<and> check_instances c2 = (c3, None) \<and> derive_Tag W c3 = (c4, None)
         \<and> derive_ClusterName L W c4 = (c5, None) \<and> derive_ConfigPath W c5 = (c6, None)
         \<and> derive_LogOutputs L W c6 = (c7, None) \<and> derive_KeyName L c7 = (c8, None)
         \<and> derive_KeyPath W c8 = (c9, None) \<and> derive_InstanceProfile W c9 = (cfg', None)"
proof -
  have "\<exists>c1 c2 c3 c4 c5 c6 c7 c8 c9.
           check_inputs L cfg = (c1, None) \<and> build_InitScript L c1 = (c2, None)
         \<and> check_instances c2 = (c3, None) \<and> derive_Tag W c3 = (c4, None)
         \<and> derive_ClusterName L W c4 = (c5, None) \<and> derive_ConfigPath W c5 = (c6, None)
         \<and> derive_LogOutputs L W c6 = (c7, None) \<and> derive_KeyName L c7 = (c8, None)
         \<and> derive_KeyPath W c8 = (c9, None) \<and> derive_InstanceProfile W c9 = (cfg', None)"
    using assms unfolding ValidateAndSetDefaults_def
    apply (simp only: foldl.simps)
    apply (erule then_do_successE)+
    apply (simp only: prod.inject)
    apply blast
    done
  then obtain c1 c2 c3 c4 c5 c6 c7 c8 c9 where
      b1: "check_inputs L cfg = (c1, None)" and rest: "build_InitScript L c1 = (c2, None)
         \<and> check_instances c2 = (c3, None) \<and> derive_Tag W c3 = (c4, None)
         \<and> derive_ClusterName L W c4 = (c5, None) \<and> derive_ConfigPath W c5 = (c6, None)
         \<and> derive_LogOutputs L W c6 = (c7, None) \<and> derive_KeyName L c7 = (c8, None)
         \<and> derive_KeyPath W c8 = (c9, None) \<and> derive_InstanceProfile W c9 = (cfg', None)"
    by blast
  from b1 have "c1 = cfg" using check_inputs_success by blast
  with b1 rest show ?thesis by blast
qed

text \<open>
  The fields of the configuration after a call that returned nil, in terms of the
  configuration before it.
\<close>

lemma ValidateAndSetDefaults_success_fields:
  assumes "ValidateAndSetDefaults L W cfg = (cfg', None)"
  shows "LogOutputs cfg \<noteq> [] \<and> AWSRegion cfg \<noteq> '''' \<and> RegionToAiport L (AWSRegion cfg) \<noteq> None
       \<and> UserName cfg \<noteq> '''' \<and> ImageID cfg \<noteq> '''' \<and> InstanceType cfg \<noteq> ''''
       \<and> \<not> ClusterSize cfg < 1
       \<and> AWSRegion cfg' = AWSRegion cfg \<and> UserName cfg' = UserName cfg \<and> ImageID cfg' = ImageID cfg
       \<and> Plugins cfg' = Plugins cfg \<and> InstanceType cfg' = InstanceType cfg
       \<and> ClusterSize cfg' = ClusterSize cfg
       \<and> InstanceProfileFilePath cfg' = InstanceProfileFilePath cfg
       \<and> (Plugins cfg = [] \<or> InitScriptCreated cfg')
       \<and> Tag cfg' = (if Tag cfg = '''' then genTag (time_Now W) else Tag cfg)
       \<and> ClusterName cfg' =
           (if ClusterName cfg = '''' then
              Tag cfg' @ ''-''
                @ strings_ToLower L (case RegionToAiport L (AWSRegion cfg) of None \<Rightarrow> '''' | Some a \<Rightarrow> a)
                @ ''-'' @ AWSRegion cfg @ ''-'' @ randString W 5
            else ClusterName cfg)
       \<and> (ConfigPath cfg \<noteq> '''' \<longrightarrow> ConfigPath cfg' = ConfigPath cfg)
       \<and> ConfigPathBucket cfg' = filepath_Join L [ClusterName cfg', ''ec2config.yaml'']
       \<and> LogOutputToUploadPath cfg' = filepath_Join L [os_TempDir W, ClusterName cfg' @ ''.log'']
       \<and> LogOutputs cfg' =
           (if logOutputExist (LogOutputToUploadPath cfg') (LogOutputs cfg) then LogOutputs cfg
            else LogOutputs cfg @ [LogOutputToUploadPath cfg'])
       \<and> LogOutputToUploadPathBucket cfg' = filepath_Join L [ClusterName cfg', ''ec2.log'']
       \<and> KeyName cfg' = (if KeyName cfg = '''' then ClusterName cfg' else KeyName cfg)
       \<and> KeyPathBucket cfg' = filepath_Join L [ClusterName cfg', ''ec2.key'']
       \<and> (KeyPath cfg \<noteq> '''' \<longrightarrow> KeyPath cfg' = KeyPath cfg)
       \<and> (InstanceProfileFilePath cfg \<noteq> '''' \<longrightarrow>
            os_Stat W (InstanceProfileFilePath cfg) = None
            \<and> InstanceProfileName cfg' = ClusterName cfg' @ ''-instance-profile''
            \<and> InstanceProfileRoleName cfg' = (ClusterName cfg' @ ''-instance-profile'') @ ''-role''
            \<and> InstanceProfilePolicyName cfg' = (ClusterName cfg' @ ''-instance-profile'') @ ''-policy'')"
proof -
  from ValidateAndSetDefaults_success_chain [OF assms]
  obtain c2 c3 c4 c5 c6 c7 c8 c9 where
        b1: "check_inputs L cfg = (cfg, None)" and b2: "build_InitScript L cfg = (c2, None)"
    and b3: "check_instances c2 = (c3, None)" and b4: "derive_Tag W c3 = (c4, None)"
    and b5: "derive_ClusterName L W c4 = (c5, None)" and b6: "derive_ConfigPath W c5 = (c6, None)"
    and b7: "derive_LogOutputs L W c6 = (c7, None)" and b8: "derive_KeyName L c7 = (c8, None)"
    and b9: "derive_KeyPath W c8 = (c9, None)" and b10: "derive_InstanceProfile W c9 = (cfg', None)"
    by blast
  note in1 = check_inputs_success [OF b1]
  from build_InitScript_success [OF b2] obtain s b where
    c2: "c2 = cfg\<lparr>InitScript := s, InitScriptCreated := b\<rparr>" and built: "Plugins cfg = [] \<or> b"
    by blast
  from check_instances_success [OF b3] have
    c3: "c3 = c2" and in3: "InstanceType c2 \<noteq> ''''" "\<not> ClusterSize c2 < 1"
    by simp_all
  from b4 have c4: "c4 = c3\<lparr>Tag := (if Tag c3 = '''' then genTag (time_Now W) else Tag c3)\<rparr>"
    by (simp add: derive_Tag_eq)
  from b5 have c5: "c5 = c4\<lparr>ClusterName :=
          (if ClusterName c4 = '''' then
             Tag c4 @ ''-''
               @ strings_ToLower L (case RegionToAiport L (AWSRegion c4) of None \<Rightarrow> '''' | Some a \<Rightarrow> a)
               @ ''-'' @ AWSRegion c4 @ ''-'' @ randString W 5
           else ClusterName c4)\<rparr>"
    by (simp add: derive_ClusterName_eq)
  from derive_ConfigPath_success [OF b6] obtain cp where
    c6: "c6 = c5\<lparr>ConfigPath := cp\<rparr>" and cp: "ConfigPath c5 \<noteq> '''' \<longrightarrow> cp = ConfigPath c5"
    by blast
  from b7 have c7: "c7 = c6\<lparr>ConfigPathBucket := filepath_Join L [ClusterName c6, ''ec2config.yaml''],
        LogOutputToUploadPath := filepath_Join L [os_TempDir W, ClusterName c6 @ ''.log''],
        LogOutputs :=
          (if logOutputExist (filepath_Join L [os_TempDir W, ClusterName c6 @ ''.log'']) (LogOutputs c6)
           then LogOutputs c6
           else LogOutputs c6 @ [filepath_Join L [os_TempDir W, ClusterName c6 @ ''.log'']]),
        LogOutputToUploadPathBucket := filepath_Join L [ClusterName c6, ''ec2.log'']\<rparr>"
    by (simp add: derive_LogOutputs_eq)
  from b8 have c8: "c8 = c7\<lparr>KeyName := (if KeyName c7 = '''' then ClusterName c7 else KeyName c7),
        KeyPathBucket := filepath_Join L [ClusterName c7, ''ec2.key'']\<rparr>"
    by (simp add: derive_KeyName_eq)
  from derive_KeyPath_success [OF b9] obtain kp where
    c9: "c9 = c8\<lparr>KeyPath := kp\<rparr>" and kp: "KeyPath c8 \<noteq> '''' \<longrightarrow> kp = KeyPath c8"
    by blast
  note c10 = derive_InstanceProfile_success [OF b10]
  have fin: "cfg' = c9\<lparr>InstanceProfileName :=
                  (if InstanceProfileFilePath c9 \<noteq> '''' then ClusterName c9 @ ''-instance-profile''
                   else InstanceProfileName c9),
                InstanceProfileRoleName :=
                  (if InstanceProfileFilePath c9 \<noteq> ''''
                   then (ClusterName c9 @ ''-instance-profile'') @ ''-role''
                   else InstanceProfileRoleName c9),
                InstanceProfilePolicyName :=
                  (if InstanceProfileFilePath c9 \<noteq> ''''
                   then (ClusterName c9 @ ''-instance-profile'') @ ''-policy''
                   else InstanceProfilePolicyName c9)\<rparr>"
    using c10 by blast
  have stat: "InstanceProfileFilePath c9 \<noteq> '''' \<longrightarrow> os_Stat W (InstanceProfileFilePath c9) = None"
    using c10 by blast
  note defs = fin c9 c8 c7 c6 c5 c4 c3 c2
  have inputs: "LogOutputs cfg \<noteq> [] \<and> AWSRegion cfg \<noteq> '''' \<and> RegionToAiport L (AWSRegion cfg) \<noteq> None
       \<and> UserName cfg \<noteq> '''' \<and> ImageID cfg \<noteq> '''' \<and> InstanceType cfg \<noteq> ''''
       \<and> \<not> ClusterSize cfg < 1"
    using in1 in3 by (simp add: c2)
  have kept: "AWSRegion cfg' = AWSRegion cfg \<and> UserName cfg' = UserName cfg \<and> ImageID cfg' = ImageID cfg
       \<and> Plugins cfg' = Plugins cfg \<and> InstanceType cfg' = InstanceType cfg
       \<and> ClusterSize cfg' = ClusterSize cfg
       \<and> InstanceProfileFilePath cfg' = InstanceProfileFilePath cfg"
    by (simp add: defs)
  have script: "Plugins cfg = [] \<or> InitScriptCreated cfg'"
    using built by (simp add: defs)
  have tag: "Tag cfg' = (if Tag cfg = '''' then genTag (time_Now W) else Tag cfg)"
    by (simp add: defs)
  have name: "ClusterName cfg' =
           (if ClusterName cfg = '''' then
              Tag cfg' @ ''-''
                @ strings_ToLower L (case RegionToAiport L (AWSRegion cfg) of None \<Rightarrow> '''' | Some a \<Rightarrow> a)
                @ ''-'' @ AWSRegion cfg @ ''-'' @ randString W 5
            else ClusterName cfg)"
    by (simp add: defs)
  have paths: "(ConfigPath cfg \<noteq> '''' \<longrightarrow> ConfigPath cfg' = ConfigPath cfg)
       \<and> (KeyPath cfg \<noteq> '''' \<longrightarrow> KeyPath cfg' = KeyPath cfg)"
    using cp kp by (simp add: defs)
  have keys: "ConfigPathBucket cfg' = filepath_Join L [ClusterName cfg', ''ec2config.yaml'']
       \<and> LogOutputToUploadPath cfg' = filepath_Join L [os_TempDir W, ClusterName cfg' @ ''.log'']
       \<and> LogOutputToUploadPathBucket cfg' = filepath_Join L [ClusterName cfg', ''ec2.log'']
       \<and> KeyPathBucket cfg' = filepath_Join L [ClusterName cfg', ''ec2.key'']"
    by (simp add: defs)
  have outputs: "LogOutputs cfg' =
           (if logOutputExist (LogOutputToUploadPath cfg') (LogOutputs cfg) then LogOutputs cfg
            else LogOutputs cfg @ [LogOutputToUploadPath cfg'])"
    by (simp add: defs)
  have keyname: "KeyName cfg' = (if KeyName cfg = '''' then ClusterName cfg' else KeyName cfg)"
    by (simp add: defs)
  have profile: "InstanceProfileFilePath cfg \<noteq> '''' \<longrightarrow>
            os_Stat W (InstanceProfileFilePath cfg) = None
            \<and> InstanceProfileName cfg' = ClusterName cfg' @ ''-instance-profile''
            \<and> InstanceProfileRoleName cfg' = (ClusterName cfg' @ ''-instance-profile'') @ ''-role''
            \<and> InstanceProfilePolicyName cfg' = (ClusterName cfg' @ ''-instance-profile'') @ ''-policy''"
    using stat by (simp add: defs)
  from inputs kept script tag name paths keys outputs keyname profile show ?thesis
    by blast
qed

subsection \<open>The tag and the cluster name\<close>

lemma digit_char_digit:
  assumes "d < 10"
  shows "is_digit (digit_char d) \<and> digit_val (digit_char d) = int d"
proof -
  from assms have "d \<in> {0, 1, 2, 3, 4, 5, 6, 7, 8, 9}" by auto
  then show ?thesis
    by (auto simp: digit_char_def is_digit_def digit_val_def)
qed

lemma dec_one_digit: "n < 10 \<Longrightarrow> dec n = [digit_char n]"
  by (simp add: dec.simps)

lemma dec_two_digits:
  "10 \<le> n \<Longrightarrow> n < 100 \<Longrightarrow> dec n = [digit_char (n div 10), digit_char (n mod 10)]"
  by (subst dec.simps) (simp add: dec_one_digit)

lemma fmt_02d_two_digits:
  assumes "0 \<le> i" and "i < 100"
  shows "fmt_02d i = [digit_char (nat i div 10), digit_char (nat i mod 10)]"
proof (cases "nat i < 10")
  case True
  then show ?thesis using assms by (simp add: fmt_02d_def dec_one_digit digit_char_def)
next
  case False
  then have "10 \<le> nat i" "nat i < 100" using assms by auto
  then show ?thesis using assms by (simp add: fmt_02d_def dec_two_digits)
qed

lemma fmt_d_two_digits:
  assumes "10 \<le> i" and "i < 100"
  shows "fmt_d i = [digit_char (nat i div 10), digit_char (nat i mod 10)]"
proof -
  have "10 \<le> nat i" "nat i < 100" using assms by auto
  then show ?thesis using assms by (simp add: fmt_d_def dec_two_digits)
qed

lemma two_digits_value:
  assumes "n < 100"
  shows "is_digit (digit_char (n div 10)) \<and> is_digit (digit_char (n mod 10))
       \<and> 10 * digit_val (digit_char (n div 10)) + digit_val (digit_char (n mod 10)) = int n"
proof -
  have "n div 10 < 10" "n mod 10 < 10" using assms by auto
  then show ?thesis using digit_char_digit by (simp add: zdiv_int zmod_int)
qed

lemma genTag_shape:
  assumes "2010 \<le> Year now" "Year now < 2100" "1 \<le> Month now" "Month now \<le> 12"
    and "1 \<le> Day now" "Day now \<le> 31" "0 \<le> Hour now" "Hour now \<le> 23"
  shows "length (genTag now) = 12 \<and> list_all is_digit (drop 4 (genTag now))
       \<and> digits_val (drop 4 (genTag now))
           = (Year now - 2000) * 1000000 + Month now * 10000 + Day now * 100 + Hour now"
proof -
  define y where "y = nat (Year now - 2000)"
  define m where "m = nat (Month now)"
  define d where "d = nat (Day now)"
  define h where "h = nat (Hour now)"
  have small: "y < 100" "m < 100" "d < 100" "h < 100"
    using assms by (auto simp: y_def m_def d_def h_def)
  have ints: "int y = Year now - 2000" "int m = Month now" "int d = Day now" "int h = Hour now"
    using assms by (auto simp: y_def m_def d_def h_def)
  have tag: "genTag now = ''ec2-'' @
      [digit_char (y div 10), digit_char (y mod 10), digit_char (m div 10), digit_char (m mod 10),
       digit_char (d div 10), digit_char (d mod 10), digit_char (h div 10), digit_char (h mod 10)]"
    using assms
    by (simp add: genTag_def fmt_d_two_digits fmt_02d_two_digits y_def m_def d_def h_def)
  have "digits_val
      [digit_char (y div 10), digit_char (y mod 10), digit_char (m div 10), digit_char (m mod 10),
       digit_char (d div 10), digit_char (d mod 10), digit_char (h div 10), digit_char (h mod 10)]
        = (10 * digit_val (digit_char (y div 10)) + digit_val (digit_char (y mod 10))) * 1000000
        + (10 * digit_val (digit_char (m div 10)) + digit_val (digit_char (m mod 10))) * 10000
        + (10 * digit_val (digit_char (d div 10)) + digit_val (digit_char (d mod 10))) * 100
        + (10 * digit_val (digit_char (h div 10)) + digit_val (digit_char (h mod 10)))"
    by (simp add: digits_val_def)
  also have "\<dots> = int y * 1000000 + int m * 10000 + int d * 100 + int h"
    using two_digits_value [OF small(1)] two_digits_value [OF small(2)]
      two_digits_value [OF small(3)] two_digits_value [OF small(4)]
    by simp
  finally have val: "digits_val (drop 4 (genTag now))
       = (Year now - 2000) * 1000000 + Month now * 10000 + Day now * 100 + Hour now"
    by (simp add: tag ints)
  have "list_all is_digit (drop 4 (genTag now))"
    using two_digits_value [OF small(1)] two_digits_value [OF small(2)]
      two_digits_value [OF small(3)] two_digits_value [OF small(4)]
    by (simp add: tag)
  with val show ?thesis by (simp add: tag)
qed

lemma genTag_prefix: "take 4 (genTag now) = ''ec2-''"
  by (simp add: genTag_def)

lemma genTag_not_empty: "genTag now \<noteq> ''''"
  by (simp add: genTag_def)

lemma randString_alphabet: "length (randString W n) = n \<and> set (randString W n) \<subseteq> set ll"
proof -
  have "length ll = 36" by (simp add: ll_def)
  then have "\<And>i. ll ! Intn W i (length ll) \<in> set ll"
    by (simp add: Intn_def)
  then show ?thesis by (auto simp: randString_def)
qed

lemma upt_0_5: "[0..<5] = [0, 1, 2, 3, 4]"
  by (simp add: upt_rec)

lemma genTag_world0: "genTag (time_Now world0) = ''ec2-26110114''"
  by (simp add: genTag_def world0_def fmt_d_def fmt_02d_def dec.simps digit_char_def)

lemma randString_world0: "randString world0 5 = ''3ahov''"
  by (simp add: randString_def upt_0_5 Intn_def world0_def ll_def)

lemma ValidateAndSetDefaults_default_run:
  "snd (ValidateAndSetDefaults lib0 world0 (defaultConfig ''info'')) = None"
  by (simp add: ValidateAndSetDefaults_def check_inputs_def build_InitScript_def
        check_instances_def derive_Tag_eq derive_ClusterName_eq derive_ConfigPath_def
        derive_LogOutputs_eq derive_KeyName_eq derive_KeyPath_def derive_InstanceProfile_def
        Let_def lib0_def world0_def defaultConfig_def zero_Config_def)

lemma defaultConfig_empty_names:
  "Tag (defaultConfig lvl) = '''' \<and> ClusterName (defaultConfig lvl) = ''''"
  by (simp add: defaultConfig_def zero_Config_def)

text \<open>
  C8, as claimed: the derived tag is a fixed-width numeric string. The tag derived for
  the default configuration at 14 h on 1 November 2026 is \<open>ec2-26110114\<close>, which
  starts with letters and a hyphen.
\<close>

theorem ValidateAndSetDefaults_tag_counterexample:
  "Tag (defaultConfig ''info'') = ''''
   \<and> Tag (fst (ValidateAndSetDefaults lib0 world0 (defaultConfig ''info''))) = ''ec2-26110114''
   \<and> \<not> list_all is_digit (Tag (fst (ValidateAndSetDefaults lib0 world0 (defaultConfig ''info''))))"
proof -
  obtain cfg' where run: "ValidateAndSetDefaults lib0 world0 (defaultConfig ''info'') = (cfg', None)"
    using ValidateAndSetDefaults_default_run
    by (cases "ValidateAndSetDefaults lib0 world0 (defaultConfig ''info'')") auto
  have "Tag cfg' = ''ec2-26110114''"
    using ValidateAndSetDefaults_success_fields [OF run]
    by (simp add: defaultConfig_empty_names genTag_world0)
  then show ?thesis
    using run by (simp add: defaultConfig_empty_names is_digit_def)
qed

text \<open>
  C8, amended: on a call that returns nil, an empty \<open>Tag\<close> becomes the literal prefix
  \<open>ec2-\<close> followed by the year minus 2000, the month, the day and the hour of the
  current time; for the years 2010 to 2099 that is twelve characters, the prefix and
  eight decimal digits, two for each of the four numbers. An empty \<open>ClusterName\<close>
  becomes the tag, the lower-cased label of the region, the region, and five characters
  drawn from the lower-case alphanumeric alphabet, joined by hyphens. A non-empty
  \<open>Tag\<close> or \<open>ClusterName\<close> is kept.
\<close>

theorem ValidateAndSetDefaults_tag_and_name:
  assumes "snd (ValidateAndSetDefaults L W cfg) = None"
  shows "Tag (fst (ValidateAndSetDefaults L W cfg))
           = (if Tag cfg = '''' then genTag (time_Now W) else Tag cfg)
       \<and> take 4 (genTag (time_Now W)) = ''ec2-''
       \<and> (2010 \<le> Year (time_Now W) \<and> Year (time_Now W) < 2100
            \<and> 1 \<le> Month (time_Now W) \<and> Month (time_Now W) \<le> 12
            \<and> 1 \<le> Day (time_Now W) \<and> Day (time_Now W) \<le> 31
            \<and> 0 \<le> Hour (time_Now W) \<and> Hour (time_Now W) \<le> 23
          \<longrightarrow> length (genTag (time_Now W)) = 12
              \<and> list_all is_digit (drop 4 (genTag (time_Now W)))
              \<and> digits_val (drop 4 (genTag (time_Now W)))
                  = (Year (time_Now W) - 2000) * 1000000 + Month (time_Now W) * 10000
                      + Day (time_Now W) * 100 + Hour (time_Now W))
       \<and> (\<exists>airport. RegionToAiport L (AWSRegion cfg) = Some airport
            \<and> ClusterName (fst (ValidateAndSetDefaults L W cfg))
                = (if ClusterName cfg = '''' then
                     Tag (fst (ValidateAndSetDefaults L W cfg)) @ ''-'' @ strings_ToLower L airport
                       @ ''-'' @ AWSRegion cfg @ ''-'' @ randString W 5
                   else ClusterName cfg))
       \<and> length (randString W 5) = 5 \<and> set (randString W 5) \<subseteq> set ll"
proof -
  obtain cfg' where run: "ValidateAndSetDefaults L W cfg = (cfg', None)"
    using assms by (cases "ValidateAndSetDefaults L W cfg") auto
  note fields = ValidateAndSetDefaults_success_fields [OF run]
  from fields obtain airport where airport: "RegionToAiport L (AWSRegion cfg) = Some airport"
    by blast
  have tag: "Tag cfg' = (if Tag cfg = '''' then genTag (time_Now W) else Tag cfg)"
    using fields by blast
  have "ClusterName cfg' =
           (if ClusterName cfg = '''' then
              Tag cfg' @ ''-''
                @ strings_ToLower L (case RegionToAiport L (AWSRegion cfg) of None \<Rightarrow> '''' | Some a \<Rightarrow> a)
                @ ''-'' @ AWSRegion cfg @ ''-'' @ randString W 5
            else ClusterName cfg)"
    using fields by blast
  then have name: "ClusterName cfg' =
           (if ClusterName cfg = '''' then
              Tag cfg' @ ''-'' @ strings_ToLower L airport @ ''-'' @ AWSRegion cfg @ ''-''
                @ randString W 5
            else ClusterName cfg)"
    by (simp add: airport)
  show ?thesis
    using tag name airport genTag_prefix [of "time_Now W"] genTag_shape [of "time_Now W"]
      randString_alphabet [of W 5]
    by (simp add: run)
qed

theorem ValidateAndSetDefaults_tag_and_name_witness:
  "snd (ValidateAndSetDefaults lib0 world0 (defaultConfig ''info'')) = None
   \<and> Tag (fst (ValidateAndSetDefaults lib0 world0 (defaultConfig ''info''))) = ''ec2-26110114''
   \<and> ClusterName (fst (ValidateAndSetDefaults lib0 world0 (defaultConfig ''info'')))
       = ''ec2-26110114-pdx-us-west-2-3ahov''"
proof -
  have ok: "snd (ValidateAndSetDefaults lib0 world0 (defaultConfig ''info'')) = None"
    by (rule ValidateAndSetDefaults_default_run)
  have region: "AWSRegion (defaultConfig ''info'') = ''us-west-2''"
    by (rule AWSRegion_defaultConfig)
  show ?thesis
    using ok ValidateAndSetDefaults_tag_and_name [OF ok]
    by (auto simp: defaultConfig_empty_names region genTag_world0 randString_world0 lib0_def
          lower_byte_def)
qed

subsection \<open>A second call\<close>

lemma check_instances_passed:
  "InstanceType c \<noteq> '''' \<Longrightarrow> \<not> ClusterSize c < 1 \<Longrightarrow> check_instances c = (c, None)"
  by (simp add: check_instances_def)

lemma derive_ConfigPath_again:
  assumes "ConfigPath c = '''' \<longrightarrow> snd (ioutil_TempFile W (os_TempDir W) ''ec2config'') = None"
  shows "\<exists>cp. derive_ConfigPath W c = (c\<lparr>ConfigPath := cp\<rparr>, None)
            \<and> (ConfigPath c \<noteq> '''' \<longrightarrow> cp = ConfigPath c)"
proof (cases "ConfigPath c = ''''")
  case True
  with assms have "derive_ConfigPath W c
      = (c\<lparr>ConfigPath := fst (filepath_Abs W (fst (ioutil_TempFile W (os_TempDir W) ''ec2config'')))\<rparr>,
         None)"
    by (cases "ioutil_TempFile W (os_TempDir W) ''ec2config''") (auto simp: derive_ConfigPath_def)
  with True show ?thesis by blast
next
  case False
  then have "derive_ConfigPath W c = (c\<lparr>ConfigPath := ConfigPath c\<rparr>, None)"
    by (simp add: derive_ConfigPath_def)
  then show ?thesis by blast
qed

lemma derive_KeyPath_again:
  assumes "KeyPath c = '''' \<longrightarrow> snd (ioutil_TempFile W (os_TempDir W) ''ec2.key'') = None"
  shows "\<exists>kp. derive_KeyPath W c = (c\<lparr>KeyPath := kp\<rparr>, None)
            \<and> (KeyPath c \<noteq> '''' \<longrightarrow> kp = KeyPath c)"
proof (cases "KeyPath c = ''''")
  case True
  with assms have "derive_KeyPath W c
      = (c\<lparr>KeyPath := fst (filepath_Abs W (fst (ioutil_TempFile W (os_TempDir W) ''ec2.key'')))\<rparr>,
         None)"
    by (cases "ioutil_TempFile W (os_TempDir W) ''ec2.key''") (auto simp: derive_KeyPath_def)
  with True show ?thesis by blast
next
  case False
  then have "derive_KeyPath W c = (c\<lparr>KeyPath := KeyPath c\<rparr>, None)"
    by (simp add: derive_KeyPath_def)
  then show ?thesis by blast
qed

lemma derive_LogOutputs_again:
  assumes "filepath_Join L [ClusterName c, ''ec2config.yaml''] = ConfigPathBucket c"
    and "filepath_Join L [os_TempDir W, ClusterName c @ ''.log''] = LogOutputToUploadPath c"
    and "logOutputExist (LogOutputToUploadPath c) (LogOutputs c)"
    and "filepath_Join L [ClusterName c, ''ec2.log''] = LogOutputToUploadPathBucket c"
  shows "derive_LogOutputs L W c = (c, None)"
  using assms by (simp add: derive_LogOutputs_eq)

lemma derive_KeyName_again:
  assumes "KeyName c \<noteq> ''''" and "filepath_Join L [ClusterName c, ''ec2.key''] = KeyPathBucket c"
  shows "derive_KeyName L c = (c, None)"
  using assms by (simp add: derive_KeyName_eq)

lemma derive_InstanceProfile_again:
  assumes "InstanceProfileFilePath c \<noteq> '''' \<longrightarrow>
             os_Stat W (InstanceProfileFilePath c) = None
             \<and> ClusterName c @ ''-instance-profile'' = InstanceProfileName c
             \<and> InstanceProfileName c @ ''-role'' = InstanceProfileRoleName c
             \<and> InstanceProfileName c @ ''-policy'' = InstanceProfilePolicyName c"
  shows "derive_InstanceProfile W c = (c, None)"
  using assms by (simp add: derive_InstanceProfile_def Let_def)

text \<open>
  On a configuration that has every derived field in place, the pass writes nothing
  but a still-empty \<open>ConfigPath\<close> or \<open>KeyPath\<close>.
\<close>

lemma ValidateAndSetDefaults_on_finalized:
  assumes inputs: "LogOutputs c \<noteq> []" "AWSRegion c \<noteq> ''''" "RegionToAiport L (AWSRegion c) \<noteq> None"
      "UserName c \<noteq> ''''" "ImageID c \<noteq> ''''" "InstanceType c \<noteq> ''''" "\<not> ClusterSize c < 1"
    and script: "Plugins c = [] \<or> InitScriptCreated c"
    and names: "Tag c \<noteq> ''''" "ClusterName c \<noteq> ''''" "KeyName c \<noteq> ''''"
    and keys: "filepath_Join L [ClusterName c, ''ec2config.yaml''] = ConfigPathBucket c"
      "filepath_Join L [os_TempDir W, ClusterName c @ ''.log''] = LogOutputToUploadPath c"
      "filepath_Join L [ClusterName c, ''ec2.log''] = LogOutputToUploadPathBucket c"
      "filepath_Join L [ClusterName c, ''ec2.key''] = KeyPathBucket c"
    and listed: "logOutputExist (LogOutputToUploadPath c) (LogOutputs c)"
    and profile: "InstanceProfileFilePath c \<noteq> '''' \<longrightarrow>
             os_Stat W (InstanceProfileFilePath c) = None
             \<and> ClusterName c @ ''-instance-profile'' = InstanceProfileName c
             \<and> InstanceProfileName c @ ''-role'' = InstanceProfileRoleName c
             \<and> InstanceProfileName c @ ''-policy'' = InstanceProfilePolicyName c"
    and tmp_config: "ConfigPath c = '''' \<longrightarrow> snd (ioutil_TempFile W (os_TempDir W) ''ec2config'') = None"
    and tmp_key: "KeyPath c = '''' \<longrightarrow> snd (ioutil_TempFile W (os_TempDir W) ''ec2.key'') = None"
  shows "\<exists>cp kp. ValidateAndSetDefaults L W c = (c\<lparr>ConfigPath := cp, KeyPath := kp\<rparr>, None)
           \<and> (ConfigPath c \<noteq> '''' \<longrightarrow> cp = ConfigPath c)
           \<and> (KeyPath c \<noteq> '''' \<longrightarrow> kp = KeyPath c)"
proof -
  have s1: "check_inputs L c = (c, None)"
    using inputs by (simp add: check_inputs_def)
  have s2: "build_InitScript L c = (c, None)"
    using script by (rule build_InitScript_skipped)
  have s3: "check_instances c = (c, None)"
    using inputs by (simp add: check_instances_passed)
  have s4: "derive_Tag W c = (c, None)"
    using names by (simp add: derive_Tag_def)
  have s5: "derive_ClusterName L W c = (c, None)"
    using names by (simp add: derive_ClusterName_def)
  from derive_ConfigPath_again [OF tmp_config] obtain cp where
    s6: "derive_ConfigPath W c = (c\<lparr>ConfigPath := cp\<rparr>, None)"
    and cp: "ConfigPath c \<noteq> '''' \<longrightarrow> cp = ConfigPath c"
    by blast
  have s7: "derive_LogOutputs L W (c\<lparr>ConfigPath := cp\<rparr>) = (c\<lparr>ConfigPath := cp\<rparr>, None)"
    using keys listed by (intro derive_LogOutputs_again) simp_all
  have s8: "derive_KeyName L (c\<lparr>ConfigPath := cp\<rparr>) = (c\<lparr>ConfigPath := cp\<rparr>, None)"
    using keys names by (intro derive_KeyName_again) simp_all
  have "KeyPath (c\<lparr>ConfigPath := cp\<rparr>) = ''''
      \<longrightarrow> snd (ioutil_TempFile W (os_TempDir W) ''ec2.key'') = None"
    using tmp_key by simp
  from derive_KeyPath_again [OF this] obtain kp where
    s9: "derive_KeyPath W (c\<lparr>ConfigPath := cp\<rparr>) = (c\<lparr>ConfigPath := cp, KeyPath := kp\<rparr>, None)"
    and kp: "KeyPath c \<noteq> '''' \<longrightarrow> kp = KeyPath c"
    by auto
  have s10: "derive_InstanceProfile W (c\<lparr>ConfigPath := cp, KeyPath := kp\<rparr>)
               = (c\<lparr>ConfigPath := cp, KeyPath := kp\<rparr>, None)"
    using profile by (intro derive_InstanceProfile_again) simp
  have "ValidateAndSetDefaults L W c = (c\<lparr>ConfigPath := cp, KeyPath := kp\<rparr>, None)"
    by (simp add: ValidateAndSetDefaults_def s1 s2 s3 s4 s5 s6 s7 s8 s9 s10)
  with cp kp show ?thesis by blast
qed

lemma logOutputExist_iff: "logOutputExist p lvs \<longleftrightarrow> p \<in> set lvs"
  by (induction lvs) auto

lemma count_list_snoc: "count_list (xs @ [x]) y = count_list xs y + (if x = y then 1 else 0)"
  by (induction xs) auto

text \<open>
  The second of two calls in a row, in a world that has the same temporary directory,
  still has the instance profile file, and can allocate a temporary file where a path is
  still empty.
\<close>

lemma ValidateAndSetDefaults_second_call:
  assumes first: "ValidateAndSetDefaults L W1 cfg = (cfg1, None)"
    and tmp: "os_TempDir W2 = os_TempDir W1"
    and stat: "InstanceProfileFilePath cfg \<noteq> '''' \<longrightarrow> os_Stat W2 (InstanceProfileFilePath cfg) = None"
    and tmp_config: "ConfigPath cfg1 = '''' \<longrightarrow> snd (ioutil_TempFile W2 (os_TempDir W2) ''ec2config'') = None"
    and tmp_key: "KeyPath cfg1 = '''' \<longrightarrow> snd (ioutil_TempFile W2 (os_TempDir W2) ''ec2.key'') = None"
  shows "\<exists>cp kp. ValidateAndSetDefaults L W2 cfg1 = (cfg1\<lparr>ConfigPath := cp, KeyPath := kp\<rparr>, None)
           \<and> (ConfigPath cfg1 \<noteq> '''' \<longrightarrow> cp = ConfigPath cfg1)
           \<and> (KeyPath cfg1 \<noteq> '''' \<longrightarrow> kp = KeyPath cfg1)"
    and "Tag cfg1 \<noteq> '''' \<and> ClusterName cfg1 \<noteq> '''' \<and> KeyName cfg1 \<noteq> ''''"
    and "LogOutputToUploadPath cfg1 \<in> set (LogOutputs cfg1)"
    and "count_list (LogOutputs cfg) (LogOutputToUploadPath cfg1) \<le> 1
         \<longrightarrow> count_list (LogOutputs cfg1) (LogOutputToUploadPath cfg1) = 1"
proof -
  note fields = ValidateAndSetDefaults_success_fields [OF first]
  have tag: "Tag cfg1 \<noteq> ''''"
    using fields genTag_not_empty [of "time_Now W1"] by (auto split: if_splits)
  have name: "ClusterName cfg1 \<noteq> ''''"
    using fields by (auto split: if_splits)
  have keyname: "KeyName cfg1 \<noteq> ''''"
    using fields name by (auto split: if_splits)
  show names: "Tag cfg1 \<noteq> '''' \<and> ClusterName cfg1 \<noteq> '''' \<and> KeyName cfg1 \<noteq> ''''"
    using tag name keyname by simp
  have outputs: "LogOutputs cfg1 =
           (if logOutputExist (LogOutputToUploadPath cfg1) (LogOutputs cfg) then LogOutputs cfg
            else LogOutputs cfg @ [LogOutputToUploadPath cfg1])"
    using fields by blast
  then show listed: "LogOutputToUploadPath cfg1 \<in> set (LogOutputs cfg1)"
    by (auto simp: logOutputExist_iff split: if_splits)
  show "count_list (LogOutputs cfg) (LogOutputToUploadPath cfg1) \<le> 1
         \<longrightarrow> count_list (LogOutputs cfg1) (LogOutputToUploadPath cfg1) = 1"
  proof (cases "LogOutputToUploadPath cfg1 \<in> set (LogOutputs cfg)")
    case True
    then have "count_list (LogOutputs cfg) (LogOutputToUploadPath cfg1) \<noteq> 0"
      by (simp add: count_list_0_iff)
    moreover from True outputs have "LogOutputs cfg1 = LogOutputs cfg"
      by (simp add: logOutputExist_iff)
    ultimately show ?thesis by auto
  next
    case False
    then have "count_list (LogOutputs cfg) (LogOutputToUploadPath cfg1) = 0"
      by (simp add: count_list_0_iff)
    moreover from False outputs
    have "LogOutputs cfg1 = LogOutputs cfg @ [LogOutputToUploadPath cfg1]"
      by (simp add: logOutputExist_iff)
    ultimately show ?thesis by (simp add: count_list_snoc)
  qed
  have nonempty: "LogOutputs cfg1 \<noteq> []"
    using listed by auto
  show "\<exists>cp kp. ValidateAndSetDefaults L W2 cfg1 = (cfg1\<lparr>ConfigPath := cp, KeyPath := kp\<rparr>, None)
           \<and> (ConfigPath cfg1 \<noteq> '''' \<longrightarrow> cp = ConfigPath cfg1)
           \<and> (KeyPath cfg1 \<noteq> '''' \<longrightarrow> kp = KeyPath cfg1)"
  proof (rule ValidateAndSetDefaults_on_finalized)
    show "LogOutputs cfg1 \<noteq> []" by (rule nonempty)
    show "AWSRegion cfg1 \<noteq> ''''" using fields by simp
    show "RegionToAiport L (AWSRegion cfg1) \<noteq> None" using fields by simp
    show "UserName cfg1 \<noteq> ''''" using fields by simp
    show "ImageID cfg1 \<noteq> ''''" using fields by simp
    show "InstanceType cfg1 \<noteq> ''''" using fields by simp
    show "\<not> ClusterSize cfg1 < 1" using fields by simp
    show "Plugins cfg1 = [] \<or> InitScriptCreated cfg1" using fields by auto
    show "Tag cfg1 \<noteq> ''''" by (rule tag)
    show "ClusterName cfg1 \<noteq> ''''" by (rule name)
    show "KeyName cfg1 \<noteq> ''''" by (rule keyname)
    show "filepath_Join L [ClusterName cfg1, ''ec2config.yaml''] = ConfigPathBucket cfg1"
      using fields by simp
    show "filepath_Join L [os_TempDir W2, ClusterName cfg1 @ ''.log''] = LogOutputToUploadPath cfg1"
      using fields tmp by simp
    show "filepath_Join L [ClusterName cfg1, ''ec2.log''] = LogOutputToUploadPathBucket cfg1"
      using fields by simp
    show "filepath_Join L [ClusterName cfg1, ''ec2.key''] = KeyPathBucket cfg1"
      using fields by simp
    show "logOutputExist (LogOutputToUploadPath cfg1) (LogOutputs cfg1)"
      using listed by (simp add: logOutputExist_iff)
    show "InstanceProfileFilePath cfg1 \<noteq> '''' \<longrightarrow>
             os_Stat W2 (InstanceProfileFilePath cfg1) = None
             \<and> ClusterName cfg1 @ ''-instance-profile'' = InstanceProfileName cfg1
             \<and> InstanceProfileName cfg1 @ ''-role'' = InstanceProfileRoleName cfg1
             \<and> InstanceProfileName cfg1 @ ''-policy'' = InstanceProfilePolicyName cfg1"
      using fields stat by simp
    show "ConfigPath cfg1 = '''' \<longrightarrow> snd (ioutil_TempFile W2 (os_TempDir W2) ''ec2config'') = None"
      by (rule tmp_config)
    show "KeyPath cfg1 = '''' \<longrightarrow> snd (ioutil_TempFile W2 (os_TempDir W2) ''ec2.key'') = None"
      by (rule tmp_key)
  qed
qed

lemma ValidateAndSetDefaults_repeated_output_run:
  "snd (ValidateAndSetDefaults lib0 world0 cfg_repeated_output) = None"
  by (simp add: ValidateAndSetDefaults_def check_inputs_def build_InitScript_def
        check_instances_def derive_Tag_eq derive_ClusterName_eq derive_ConfigPath_def
        derive_LogOutputs_eq derive_KeyName_eq derive_KeyPath_def derive_InstanceProfile_def
        Let_def lib0_def world0_def cfg_repeated_output_def defaultConfig_def zero_Config_def)

lemma world1_TempDir: "os_TempDir world1 = os_TempDir world0"
  by (simp add: world1_def)

lemma world1_TempFile: "snd (ioutil_TempFile world1 dir pat) = None"
  by (simp add: world1_def)

lemma world1_Stat: "os_Stat world1 p = None"
  by (simp add: world1_def world0_def)

text \<open>
  C5, as claimed: after two calls the derived log-upload path occurs exactly once in
  \<open>LogOutputs\<close>. A configuration whose list names the path twice before the first
  call passes both calls, and the path is still there twice: the pass looks for one
  occurrence and never removes one.
\<close>

theorem ValidateAndSetDefaults_exactly_once_counterexample:
  "snd (ValidateAndSetDefaults lib0 world0 cfg_repeated_output) = None
   \<and> snd (ValidateAndSetDefaults lib0 world1
             (fst (ValidateAndSetDefaults lib0 world0 cfg_repeated_output))) = None
   \<and> LogOutputToUploadPath
        (fst (ValidateAndSetDefaults lib0 world1
               (fst (ValidateAndSetDefaults lib0 world0 cfg_repeated_output)))) = ''/tmp/c1.log''
   \<and> count_list
        (LogOutputs
          (fst (ValidateAndSetDefaults lib0 world1
                 (fst (ValidateAndSetDefaults lib0 world0 cfg_repeated_output)))))
        ''/tmp/c1.log'' = 2"
proof -
  obtain cfg1 where run: "ValidateAndSetDefaults lib0 world0 cfg_repeated_output = (cfg1, None)"
    using ValidateAndSetDefaults_repeated_output_run
    by (cases "ValidateAndSetDefaults lib0 world0 cfg_repeated_output") auto
  note fields = ValidateAndSetDefaults_success_fields [OF run]
  have name: "ClusterName cfg1 = ''c1''"
    using fields by (simp add: cfg_repeated_output_def)
  have path: "LogOutputToUploadPath cfg1 = ''/tmp/c1.log''"
    using fields by (simp add: name lib0_def world0_def)
  have outputs: "LogOutputs cfg1 = [''/tmp/c1.log'', ''/tmp/c1.log'']"
    using fields by (simp add: path cfg_repeated_output_def)
  have "\<exists>cp kp. ValidateAndSetDefaults lib0 world1 cfg1 = (cfg1\<lparr>ConfigPath := cp, KeyPath := kp\<rparr>, None)
           \<and> (ConfigPath cfg1 \<noteq> '''' \<longrightarrow> cp = ConfigPath cfg1)
           \<and> (KeyPath cfg1 \<noteq> '''' \<longrightarrow> kp = KeyPath cfg1)"
    by (rule ValidateAndSetDefaults_second_call [OF run world1_TempDir])
       (simp_all add: world1_TempFile world1_Stat)
  then obtain cp kp where
    "ValidateAndSetDefaults lib0 world1 cfg1 = (cfg1\<lparr>ConfigPath := cp, KeyPath := kp\<rparr>, None)"
    by blast
  then show ?thesis
    using run by (simp add: path outputs)
qed

text \<open>
  C5, amended: after a call that returned nil, a second call on the result, in a world
  with the same temporary directory, where the instance profile file (if one is
  configured) still exists and a temporary file can be allocated for a path that is still
  empty, returns nil and writes nothing but a still-empty \<open>ConfigPath\<close> or
  \<open>KeyPath\<close>: \<open>Tag\<close>, \<open>ClusterName\<close> and \<open>KeyName\<close> are non-empty and kept, a
  non-empty \<open>ConfigPath\<close> or \<open>KeyPath\<close> is kept, the init script and its flag are
  kept, the storage keys are rewritten to the values they have, and \<open>LogOutputs\<close> is
  kept as it is. The derived log-upload path is in the list; it occurs exactly once if
  the list before the first call held it at most once.
\<close>

theorem ValidateAndSetDefaults_twice:
  assumes first: "snd (ValidateAndSetDefaults L W1 cfg) = None"
    and tmp: "os_TempDir W2 = os_TempDir W1"
    and stat: "InstanceProfileFilePath cfg \<noteq> '''' \<longrightarrow> os_Stat W2 (InstanceProfileFilePath cfg) = None"
    and tmp_config: "ConfigPath (fst (ValidateAndSetDefaults L W1 cfg)) = ''''
        \<longrightarrow> snd (ioutil_TempFile W2 (os_TempDir W2) ''ec2config'') = None"
    and tmp_key: "KeyPath (fst (ValidateAndSetDefaults L W1 cfg)) = ''''
        \<longrightarrow> snd (ioutil_TempFile W2 (os_TempDir W2) ''ec2.key'') = None"
  shows "(let cfg1 = fst (ValidateAndSetDefaults L W1 cfg);
              cfg2 = fst (ValidateAndSetDefaults L W2 cfg1)
          in snd (ValidateAndSetDefaults L W2 cfg1) = None
           \<and> cfg2 = cfg1\<lparr>ConfigPath := ConfigPath cfg2, KeyPath := KeyPath cfg2\<rparr>
           \<and> (ConfigPath cfg1 \<noteq> '''' \<longrightarrow> ConfigPath cfg2 = ConfigPath cfg1)
           \<and> (KeyPath cfg1 \<noteq> '''' \<longrightarrow> KeyPath cfg2 = KeyPath cfg1)
           \<and> Tag cfg1 \<noteq> '''' \<and> Tag cfg2 = Tag cfg1
           \<and> ClusterName cfg1 \<noteq> '''' \<and> ClusterName cfg2 = ClusterName cfg1
           \<and> KeyName cfg1 \<noteq> '''' \<and> KeyName cfg2 = KeyName cfg1
           \<and> InitScript cfg2 = InitScript cfg1 \<and> InitScriptCreated cfg2 = InitScriptCreated cfg1
           \<and> ConfigPathBucket cfg2 = ConfigPathBucket cfg1
           \<and> LogOutputToUploadPathBucket cfg2 = LogOutputToUploadPathBucket cfg1
           \<and> KeyPathBucket cfg2 = KeyPathBucket cfg1
           \<and> LogOutputToUploadPath cfg2 = LogOutputToUploadPath cfg1
           \<and> LogOutputs cfg2 = LogOutputs cfg1
           \<and> LogOutputToUploadPath cfg2 \<in> set (LogOutputs cfg2)
           \<and> (count_list (LogOutputs cfg) (LogOutputToUploadPath cfg1) \<le> 1
                \<longrightarrow> count_list (LogOutputs cfg2) (LogOutputToUploadPath cfg2) = 1))"
proof -
  obtain cfg1 where run: "ValidateAndSetDefaults L W1 cfg = (cfg1, None)"
    using first by (cases "ValidateAndSetDefaults L W1 cfg") auto
  have t1: "ConfigPath cfg1 = '''' \<longrightarrow> snd (ioutil_TempFile W2 (os_TempDir W2) ''ec2config'') = None"
    using tmp_config run by simp
  have t2: "KeyPath cfg1 = '''' \<longrightarrow> snd (ioutil_TempFile W2 (os_TempDir W2) ''ec2.key'') = None"
    using tmp_key run by simp
  note second = ValidateAndSetDefaults_second_call [OF run tmp stat t1 t2]
  from second(1) obtain cp kp where
    again: "ValidateAndSetDefaults L W2 cfg1 = (cfg1\<lparr>ConfigPath := cp, KeyPath := kp\<rparr>, None)"
    and cp: "ConfigPath cfg1 \<noteq> '''' \<longrightarrow> cp = ConfigPath cfg1"
    and kp: "KeyPath cfg1 \<noteq> '''' \<longrightarrow> kp = KeyPath cfg1"
    by blast
  show ?thesis
    using second(2) second(3) second(4) cp kp
    by (simp add: run again Let_def)
qed

theorem ValidateAndSetDefaults_twice_witness:
  "snd (ValidateAndSetDefaults lib0 world0 (defaultConfig ''info'')) = None
   \<and> os_TempDir world1 = os_TempDir world0
   \<and> time_Now world1 \<noteq> time_Now world0
   \<and> snd (ValidateAndSetDefaults lib0 world1
             (fst (ValidateAndSetDefaults lib0 world0 (defaultConfig ''info'')))) = None
   \<and> Tag (fst (ValidateAndSetDefaults lib0 world1
                 (fst (ValidateAndSetDefaults lib0 world0 (defaultConfig ''info'')))))
       = Tag (fst (ValidateAndSetDefaults lib0 world0 (defaultConfig ''info'')))
   \<and> LogOutputs (fst (ValidateAndSetDefaults lib0 world1
                 (fst (ValidateAndSetDefaults lib0 world0 (defaultConfig ''info'')))))
       = LogOutputs (fst (ValidateAndSetDefaults lib0 world0 (defaultConfig ''info'')))
   \<and> count_list
        (LogOutputs (fst (ValidateAndSetDefaults lib0 world1
                 (fst (ValidateAndSetDefaults lib0 world0 (defaultConfig ''info''))))))
        (LogOutputToUploadPath (fst (ValidateAndSetDefaults lib0 world1
                 (fst (ValidateAndSetDefaults lib0 world0 (defaultConfig ''info'')))))) = 1"
proof -
  have first: "snd (ValidateAndSetDefaults lib0 world0 (defaultConfig ''info'')) = None"
    by (rule ValidateAndSetDefaults_default_run)
  have stat: "InstanceProfileFilePath (defaultConfig ''info'') \<noteq> ''''
      \<longrightarrow> os_Stat world1 (InstanceProfileFilePath (defaultConfig ''info'')) = None"
    by (simp add: world1_Stat)
  have t1: "ConfigPath (fst (ValidateAndSetDefaults lib0 world0 (defaultConfig ''info''))) = ''''
      \<longrightarrow> snd (ioutil_TempFile world1 (os_TempDir world1) ''ec2config'') = None"
    by (simp add: world1_TempFile)
  have t2: "KeyPath (fst (ValidateAndSetDefaults lib0 world0 (defaultConfig ''info''))) = ''''
      \<longrightarrow> snd (ioutil_TempFile world1 (os_TempDir world1) ''ec2.key'') = None"
    by (simp add: world1_TempFile)
  have once: "count_list (LogOutputs (defaultConfig ''info''))
      (LogOutputToUploadPath (fst (ValidateAndSetDefaults lib0 world0 (defaultConfig ''info'')))) \<le> 1"
    by (simp add: defaultConfig_def)
  have clock: "time_Now world1 \<noteq> time_Now world0"
    by (simp add: world1_def world0_def)
  note twice = ValidateAndSetDefaults_twice [OF first world1_TempDir stat t1 t2, unfolded Let_def]
  from twice once have counted: "count_list
        (LogOutputs (fst (ValidateAndSetDefaults lib0 world1
                 (fst (ValidateAndSetDefaults lib0 world0 (defaultConfig ''info''))))))
        (LogOutputToUploadPath (fst (ValidateAndSetDefaults lib0 world1
                 (fst (ValidateAndSetDefaults lib0 world0 (defaultConfig ''info'')))))) = 1"
    by blast
  from twice first clock counted world1_TempDir show ?thesis
    by blast
qed

section \<open>Load and Sync\<close>

lemma Load_result:
  assumes "files D p = Some d" and "yaml_Unmarshal C d = (c, None)"
    and "snd (filepath_Abs W p) = None"
  shows "Load C W D p =
           (Some (c\<lparr>Instances := Some (case Instances c of None \<Rightarrow> Map.empty | Some m \<Rightarrow> m),
                    ConfigPath := fst (filepath_Abs W p)\<rparr>), None)"
proof (cases "Instances c")
  case None
  with assms show ?thesis by (simp add: Load_def ReadFile_def Let_def)
next
  case (Some m)
  then have "c\<lparr>Instances := Some m\<rparr> = c" by simp
  with Some assms show ?thesis by (simp add: Load_def ReadFile_def Let_def)
qed

lemma WriteFile_stored:
  "snd (WriteFile D p d) = None \<Longrightarrow> files (fst (WriteFile D p d)) p = Some d"
  by (cases "write_error D p") (simp_all add: WriteFile_def)

lemma Sync_result:
  assumes "snd (snd (Sync L C W cfg D)) = None"
  shows "fst (Sync L C W cfg D)
           = cfg\<lparr>ConfigPath := (if filepath_IsAbs L (ConfigPath cfg) then ConfigPath cfg
                                 else fst (filepath_Abs W (ConfigPath cfg))),
                 UpdatedAt := time_Now W\<rparr>
       \<and> (\<exists>d. yaml_Marshal C (fst (Sync L C W cfg D)) = (d, None)
              \<and> files (fst (snd (Sync L C W cfg D))) (ConfigPath (fst (Sync L C W cfg D))) = Some d)"
proof -
  define p where "p = (if filepath_IsAbs L (ConfigPath cfg) then ConfigPath cfg
                       else fst (filepath_Abs W (ConfigPath cfg)))"
  define cfg2 where "cfg2 = cfg\<lparr>ConfigPath := p, UpdatedAt := time_Now W\<rparr>"
  obtain d merr where m: "yaml_Marshal C cfg2 = (d, merr)"
    by (cases "yaml_Marshal C cfg2")
  have run: "Sync L C W cfg D =
               (case merr of Some err \<Rightarrow> (cfg2, D, Some err)
                | None \<Rightarrow> (cfg2, WriteFile D p d))"
  proof (cases "filepath_IsAbs L (ConfigPath cfg)")
    case True
    then have "cfg2 = cfg\<lparr>UpdatedAt := time_Now W\<rparr>" and "p = ConfigPath cfg"
      by (simp_all add: cfg2_def p_def)
    with m True show ?thesis
      by (cases merr) (simp_all add: Sync_def Let_def)
  next
    case False
    then have resolved: "snd (filepath_Abs W (ConfigPath cfg)) = None"
      using assms by (cases "snd (filepath_Abs W (ConfigPath cfg))") (simp_all add: Sync_def Let_def)
    from False have "cfg2 = cfg\<lparr>ConfigPath := fst (filepath_Abs W (ConfigPath cfg)),
                                 UpdatedAt := time_Now W\<rparr>"
      and "p = fst (filepath_Abs W (ConfigPath cfg))"
      by (simp_all add: cfg2_def p_def)
    with m False resolved show ?thesis
      by (cases merr) (simp_all add: Sync_def Let_def)
  qed
  from assms run have ok: "merr = None"
    by (cases merr) simp_all
  with run have res: "Sync L C W cfg D = (cfg2, WriteFile D p d)"
    by simp
  with assms have "snd (WriteFile D p d) = None"
    by simp
  then have "files (fst (WriteFile D p d)) p = Some d"
    by (rule WriteFile_stored)
  moreover have "ConfigPath cfg2 = p"
    by (simp add: cfg2_def)
  ultimately show ?thesis
    using res m ok by (simp add: cfg2_def p_def)
qed

lemma json_string_ascii:
  "list_all (\<lambda>c. (of_char c :: nat) < 128) s \<Longrightarrow> json_string s = s"
proof (induction s)
  case Nil
  show ?case by (simp add: json_string.simps)
next
  case (Cons b bs)
  then have "utf8_size (b # bs) = 1"
    by (simp add: utf8_size_def)
  with Cons show ?case
    by (subst json_string.simps) simp
qed

lemma json_string_invalid_byte:
  "json_string (''id-'' @ [CHR 0xFF]) = ''id-'' @ [CHR 0xEF, CHR 0xBF, CHR 0xBD]"
  by (simp add: json_string.simps utf8_size_def)

lemma Sync_then_Load_codec_json:
  assumes synced: "snd (snd (Sync L codec_json W cfg D)) = None"
    and abs: "snd (filepath_Abs W' (ConfigPath (fst (Sync L codec_json W cfg D)))) = None"
  shows "\<exists>loaded. fst (Load codec_json W' (fst (snd (Sync L codec_json W cfg D)))
                        (ConfigPath (fst (Sync L codec_json W cfg D)))) = Some loaded
           \<and> AWSAccountID loaded = json_string (AWSAccountID cfg)"
proof -
  let ?cfg1 = "fst (Sync L codec_json W cfg D)"
  let ?D1 = "fst (snd (Sync L codec_json W cfg D))"
  from Sync_result [OF synced] obtain d where
    cfg1: "?cfg1 = cfg\<lparr>ConfigPath := (if filepath_IsAbs L (ConfigPath cfg) then ConfigPath cfg
                                 else fst (filepath_Abs W (ConfigPath cfg))),
                 UpdatedAt := time_Now W\<rparr>"
    and marshalled: "yaml_Marshal codec_json ?cfg1 = (d, None)"
    and stored: "files ?D1 (ConfigPath ?cfg1) = Some d"
    by blast
  from marshalled have d: "d = json_strings ?cfg1"
    by (simp add: codec_json_def)
  have decoded: "yaml_Unmarshal codec_json d = (d, None)"
    by (simp add: codec_json_def)
  have account: "AWSAccountID d = json_string (AWSAccountID cfg)"
    by (subst d, subst cfg1) (simp add: json_strings_def)
  from Load_result [OF stored decoded abs] account show ?thesis
    by simp
qed

text \<open>
  C7, as claimed: for every configuration, \<open>Sync\<close> and then \<open>Load\<close> give back the
  configuration up to \<open>UpdatedAt\<close> and the path. With a serializer that writes strings
  as \<open>encoding/json\<close> does, a configuration whose account ID ends in the byte FF is
  written and loaded without error, and the account ID loaded ends in the three bytes of
  U+FFFD instead.
\<close>

theorem Sync_then_Load_invalid_utf8_counterexample:
  "snd (snd (Sync lib0 codec_json world0 cfg_invalid_utf8 disk0)) = None
   \<and> AWSAccountID cfg_invalid_utf8 = ''id-'' @ [CHR 0xFF]
   \<and> map_option AWSAccountID
        (fst (Load codec_json world1 (fst (snd (Sync lib0 codec_json world0 cfg_invalid_utf8 disk0)))
               (ConfigPath (fst (Sync lib0 codec_json world0 cfg_invalid_utf8 disk0)))))
       = Some (''id-'' @ [CHR 0xEF, CHR 0xBF, CHR 0xBD])"
proof -
  have synced: "snd (snd (Sync lib0 codec_json world0 cfg_invalid_utf8 disk0)) = None"
    by (simp add: Sync_def WriteFile_def Let_def lib0_def codec_json_def disk0_def world0_def
          cfg_invalid_utf8_def cfg_relative_path_def)
  have abs: "snd (filepath_Abs world1 p) = None" for p
    by (simp add: world1_def world0_def)
  have account: "AWSAccountID cfg_invalid_utf8 = ''id-'' @ [CHR 0xFF]"
    by (simp add: cfg_invalid_utf8_def)
  from Sync_then_Load_codec_json [OF synced abs] obtain loaded where
    "fst (Load codec_json world1 (fst (snd (Sync lib0 codec_json world0 cfg_invalid_utf8 disk0)))
               (ConfigPath (fst (Sync lib0 codec_json world0 cfg_invalid_utf8 disk0)))) = Some loaded"
    and "AWSAccountID loaded = json_string (AWSAccountID cfg_invalid_utf8)"
    by blast
  with synced account json_string_invalid_byte show ?thesis
    by simp
qed

text \<open>
  C7, amended: for every configuration that the serializer reconstructs from what it
  wrote for it, \<open>Sync\<close> followed by \<open>Load\<close> on the path \<open>Sync\<close> recorded yields the
  original configuration with \<open>UpdatedAt\<close> set to the time of the \<open>Sync\<close>,
  \<open>ConfigPath\<close> set to the absolute form of that path, and a nil \<open>Instances\<close>
  replaced by the empty map. \<open>Load\<close> in general returns what the serializer
  reconstructs with exactly these two fields written: a missing instance map becomes the
  empty one, the path becomes the absolute form of the location; nothing else is
  defaulted or checked.
\<close>

theorem Sync_then_Load:
  assumes faithful: "yaml_Unmarshal C (fst (yaml_Marshal C (fst (Sync L C W cfg D))))
                       = (fst (Sync L C W cfg D), None)"
    and synced: "snd (snd (Sync L C W cfg D)) = None"
    and abs: "snd (filepath_Abs W' (ConfigPath (fst (Sync L C W cfg D)))) = None"
  shows "(let cfg1 = fst (Sync L C W cfg D); D1 = fst (snd (Sync L C W cfg D));
              p = ConfigPath cfg1
          in Load C W' D1 p =
               (Some (cfg\<lparr>UpdatedAt := time_Now W,
                         ConfigPath := fst (filepath_Abs W' p),
                         Instances := Some (case Instances cfg of None \<Rightarrow> Map.empty | Some m \<Rightarrow> m)\<rparr>),
                None)
           \<and> p = (if filepath_IsAbs L (ConfigPath cfg) then ConfigPath cfg
                   else fst (filepath_Abs W (ConfigPath cfg))))
       \<and> (\<forall>D' q d c.
            files D' q = Some d \<longrightarrow> yaml_Unmarshal C d = (c, None)
            \<longrightarrow> snd (filepath_Abs W' q) = None
            \<longrightarrow> Load C W' D' q =
                  (Some (c\<lparr>Instances := Some (case Instances c of None \<Rightarrow> Map.empty | Some m \<Rightarrow> m),
                           ConfigPath := fst (filepath_Abs W' q)\<rparr>), None))"
proof -
  let ?cfg1 = "fst (Sync L C W cfg D)"
  let ?D1 = "fst (snd (Sync L C W cfg D))"
  from Sync_result [OF synced] obtain d where
    cfg1: "?cfg1 = cfg\<lparr>ConfigPath := (if filepath_IsAbs L (ConfigPath cfg) then ConfigPath cfg
                                 else fst (filepath_Abs W (ConfigPath cfg))),
                 UpdatedAt := time_Now W\<rparr>"
    and marshalled: "yaml_Marshal C ?cfg1 = (d, None)"
    and stored: "files ?D1 (ConfigPath ?cfg1) = Some d"
    by blast
  have decoded: "yaml_Unmarshal C d = (?cfg1, None)"
    using faithful marshalled by simp
  have "Load C W' ?D1 (ConfigPath ?cfg1) =
           (Some (?cfg1\<lparr>Instances := Some (case Instances ?cfg1 of None \<Rightarrow> Map.empty | Some m \<Rightarrow> m),
                    ConfigPath := fst (filepath_Abs W' (ConfigPath ?cfg1))\<rparr>), None)"
    by (rule Load_result [OF stored decoded abs])
  moreover have "?cfg1\<lparr>Instances := Some (case Instances ?cfg1 of None \<Rightarrow> Map.empty | Some m \<Rightarrow> m),
                    ConfigPath := fst (filepath_Abs W' (ConfigPath ?cfg1))\<rparr>
      = cfg\<lparr>UpdatedAt := time_Now W,
            ConfigPath := fst (filepath_Abs W' (ConfigPath ?cfg1)),
            Instances := Some (case Instances cfg of None \<Rightarrow> Map.empty | Some m \<Rightarrow> m)\<rparr>"
    by (subst (1 2) cfg1) simp
  moreover have "ConfigPath ?cfg1 = (if filepath_IsAbs L (ConfigPath cfg) then ConfigPath cfg
                   else fst (filepath_Abs W (ConfigPath cfg)))"
    by (subst cfg1) simp
  ultimately show ?thesis
    using Load_result [of _ _ _ C _ W'] by (simp add: Let_def)
qed

lemma json_strings_cfg_relative_path:
  "json_strings (cfg_relative_path\<lparr>ConfigPath := ''/home/tester/ec2.yaml'', UpdatedAt := t\<rparr>)
     = cfg_relative_path\<lparr>ConfigPath := ''/home/tester/ec2.yaml'', UpdatedAt := t\<rparr>"
  by (simp add: json_strings_def cfg_relative_path_def defaultConfig_def zero_Config_def envPfx_def
        json_string_ascii)

theorem Sync_then_Load_witness:
  "snd (snd (Sync lib0 codec_json world0 cfg_relative_path disk0)) = None
   \<and> ConfigPath (fst (Sync lib0 codec_json world0 cfg_relative_path disk0)) = ''/home/tester/ec2.yaml''
   \<and> Load codec_json world1 (fst (snd (Sync lib0 codec_json world0 cfg_relative_path disk0)))
        ''/home/tester/ec2.yaml''
       = (Some (cfg_relative_path\<lparr>UpdatedAt := time_Now world0,
                                  ConfigPath := ''/home/tester/ec2.yaml'',
                                  Instances := Some Map.empty\<rparr>), None)"
proof -
  have synced: "snd (snd (Sync lib0 codec_json world0 cfg_relative_path disk0)) = None"
    by (simp add: Sync_def WriteFile_def Let_def lib0_def codec_json_def disk0_def world0_def
          cfg_relative_path_def)
  have abs: "snd (filepath_Abs world1 p) = None" for p
    by (simp add: world1_def world0_def)
  have rel: "\<not> filepath_IsAbs lib0 (ConfigPath cfg_relative_path)"
    by (simp add: lib0_def cfg_relative_path_def)
  have resolved: "fst (filepath_Abs world0 (ConfigPath cfg_relative_path)) = ''/home/tester/ec2.yaml''"
    by (simp add: world0_def cfg_relative_path_def)
  have same: "fst (filepath_Abs world1 ''/home/tester/ec2.yaml'') = ''/home/tester/ec2.yaml''"
    by (simp add: world1_def world0_def)
  have nil: "Instances cfg_relative_path = None"
    by (simp add: cfg_relative_path_def defaultConfig_def zero_Config_def)
  have written: "fst (Sync lib0 codec_json world0 cfg_relative_path disk0)
      = cfg_relative_path\<lparr>ConfigPath := ''/home/tester/ec2.yaml'', UpdatedAt := time_Now world0\<rparr>"
    using Sync_result [OF synced] by (simp add: rel resolved)
  have faithful: "yaml_Unmarshal codec_json
        (fst (yaml_Marshal codec_json (fst (Sync lib0 codec_json world0 cfg_relative_path disk0))))
      = (fst (Sync lib0 codec_json world0 cfg_relative_path disk0), None)"
    by (simp only: written) (simp add: codec_json_def json_strings_cfg_relative_path)
  note both = Sync_then_Load [OF faithful synced abs, unfolded Let_def]
  from both rel resolved have path:
    "ConfigPath (fst (Sync lib0 codec_json world0 cfg_relative_path disk0)) = ''/home/tester/ec2.yaml''"
    by simp
  from both have "Load codec_json world1 (fst (snd (Sync lib0 codec_json world0 cfg_relative_path disk0)))
        (ConfigPath (fst (Sync lib0 codec_json world0 cfg_relative_path disk0)))
       = (Some (cfg_relative_path\<lparr>UpdatedAt := time_Now world0,
             ConfigPath := fst (filepath_Abs world1
                (ConfigPath (fst (Sync lib0 codec_json world0 cfg_relative_path disk0)))),
             Instances := Some (case Instances cfg_relative_path of None \<Rightarrow> Map.empty
                                | Some m \<Rightarrow> m)\<rparr>), None)"
    by blast
  then have "Load codec_json world1 (fst (snd (Sync lib0 codec_json world0 cfg_relative_path disk0)))
        ''/home/tester/ec2.yaml''
       = (Some (cfg_relative_path\<lparr>UpdatedAt := time_Now world0,
                                  ConfigPath := ''/home/tester/ec2.yaml'',
                                  Instances := Some Map.empty\<rparr>), None)"
    by (simp add: path same nil)
  with synced path show ?thesis
    by simp
qed

end
